theory Spec2Isabelle
  imports Complex_Main
begin

section \<open>Tensors\<close>

text \<open>
  The source (\<open>pyqtorch/modules/parametric.py\<close>) computes on torch tensors. A tensor is
  modelled by its shape and its entries, read by a multi-index; only the entries at
  indices inside the shape mean anything. Angles are real tensors, matrices and states are
  complex tensors; arithmetic is that of the real and complex numbers (the rounding of
  the floating-point types is not modelled). Every exception the source can raise is a
  value of \<open>error\<close>.
\<close>

datatype error =
  AssertionError | IndexError | KeyError | RuntimeError | TypeError | ShapeMismatchError

datatype 'a tensor = Tensor (shape: "nat list") (elem: "nat list \<Rightarrow> 'a")

definition then_e :: "error + 'a \<Rightarrow> ('a \<Rightarrow> error + 'b) \<Rightarrow> error + 'b" where
  "then_e m f = (case m of Inl e \<Rightarrow> Inl e | Inr x \<Rightarrow> f x)"

definition ndim :: "'a tensor \<Rightarrow> nat" where
  "ndim t = length (shape t)"

text \<open>\<open>len(t)\<close>: the size of the first axis; a 0-d tensor has no length (TypeError).\<close>

definition len_t :: "'a tensor \<Rightarrow> error + nat" where
  "len_t t = (case shape t of [] \<Rightarrow> Inl TypeError | n # _ \<Rightarrow> Inr n)"

text \<open>\<open>t.size(d)\<close> for \<open>d \<ge> 0\<close>, and \<open>t.size(-1)\<close>.\<close>

definition size_t :: "'a tensor \<Rightarrow> nat \<Rightarrow> error + nat" where
  "size_t t d = (if d < ndim t then Inr (shape t ! d) else Inl IndexError)"

definition size_last :: "'a tensor \<Rightarrow> error + nat" where
  "size_last t = (if shape t = [] then Inl IndexError else Inr (last (shape t)))"

text \<open>
  \<open>t.squeeze(d)\<close> removes axis \<open>d\<close> when its size is 1 and returns \<open>t\<close> unchanged
  otherwise (also on a 0-d tensor, for \<open>d = 0\<close>).
\<close>

definition squeeze :: "nat \<Rightarrow> 'a tensor \<Rightarrow> error + 'a tensor" where
  "squeeze d t =
     (if d < ndim t then
        (if shape t ! d = 1
         then Inr (Tensor (take d (shape t) @ drop (Suc d) (shape t))
                     (\<lambda>idx. elem t (take d idx @ [0] @ drop d idx)))
         else Inr t)
      else if ndim t = 0 \<and> d = 0 then Inr t
      else Inl IndexError)"

text \<open>\<open>t.unsqueeze(d)\<close> inserts an axis of size 1 at position \<open>d\<close>.\<close>

definition unsqueeze :: "nat \<Rightarrow> 'a tensor \<Rightarrow> error + 'a tensor" where
  "unsqueeze d t =
     (if d \<le> ndim t
      then Inr (Tensor (take d (shape t) @ [1] @ drop d (shape t))
                  (\<lambda>idx. elem t (take d idx @ drop (Suc d) idx)))
      else Inl IndexError)"

text \<open>
  \<open>t.repeat(reps)\<close> tiles a copy of \<open>t\<close>: the shape of \<open>t\<close> is padded with leading 1s
  to the length of \<open>reps\<close> and multiplied axis by axis; fewer repeat counts than axes is a
  RuntimeError.
\<close>

definition repeat_t :: "nat list \<Rightarrow> 'a tensor \<Rightarrow> error + 'a tensor" where
  "repeat_t reps t =
     (if length reps < ndim t then Inl RuntimeError
      else
        (let pad = length reps - ndim t;
             sh = replicate pad 1 @ shape t
         in Inr (Tensor (map2 (*) reps sh)
                   (\<lambda>idx. elem t (drop pad (map2 (\<lambda>i n. i mod n) idx sh))))))"

text \<open>Elementwise functions (\<open>torch.cos\<close>, \<open>torch.exp\<close>, division by a scalar, ...).\<close>

definition map_t :: "('a \<Rightarrow> 'b) \<Rightarrow> 'a tensor \<Rightarrow> 'b tensor" where
  "map_t f t = Tensor (shape t) (\<lambda>idx. f (elem t idx))"

text \<open>
  Binary elementwise operations broadcast: shapes are aligned at the last axis, and two
  sizes are compatible when they are equal or one of them is 1.
\<close>

fun bcast_rev :: "nat list \<Rightarrow> nat list \<Rightarrow> nat list option" where
  "bcast_rev [] ys = Some ys"
| "bcast_rev (x # xs) [] = Some (x # xs)"
| "bcast_rev (x # xs) (y # ys) =
     (if x = y \<or> y = 1 then map_option ((#) x) (bcast_rev xs ys)
      else if x = 1 then map_option ((#) y) (bcast_rev xs ys)
      else None)"

definition broadcast_shapes :: "nat list \<Rightarrow> nat list \<Rightarrow> nat list option" where
  "broadcast_shapes a b = map_option rev (bcast_rev (rev a) (rev b))"

definition bidx :: "nat list \<Rightarrow> nat list \<Rightarrow> nat list" where
  "bidx s idx = map2 (\<lambda>i n. if n = 1 then 0 else i) (drop (length idx - length s) idx) s"

definition zip_t :: "('a \<Rightarrow> 'b \<Rightarrow> 'c) \<Rightarrow> 'a tensor \<Rightarrow> 'b tensor \<Rightarrow> error + 'c tensor" where
  "zip_t f a b =
     (case broadcast_shapes (shape a) (shape b) of
        None \<Rightarrow> Inl RuntimeError
      | Some sh \<Rightarrow>
          Inr (Tensor sh (\<lambda>idx. f (elem a (bidx (shape a) idx)) (elem b (bidx (shape b) idx)))))"

text \<open>\<open>t[i, :]\<close>: row \<open>i\<close> of a tensor of at least two axes.\<close>

definition index_row :: "nat \<Rightarrow> 'a tensor \<Rightarrow> error + 'a tensor" where
  "index_row i t =
     (if ndim t < 2 then Inl IndexError
      else if shape t ! 0 \<le> i then Inl IndexError
      else Inr (Tensor (tl (shape t)) (\<lambda>idx. elem t (i # idx))))"

section \<open>The operator registry\<close>

text \<open>
  Modelled from the spec: \<open>OPERATIONS_DICT\<close> of \<open>pyqtorch.core.utils\<close> is not part of
  the sources at hand. The spec describes it as the registry of the fixed 2x2 complex
  matrices for the names "I", "X", "Y" and "Z": the identity and the Pauli matrices.
\<close>

definition mat2 :: "'a \<Rightarrow> 'a \<Rightarrow> 'a \<Rightarrow> 'a \<Rightarrow> 'a tensor" where
  "mat2 m00 m01 m10 m11 =
     Tensor [2, 2]
       (\<lambda>idx. if idx = [0, 0] then m00 else if idx = [0, 1] then m01
              else if idx = [1, 0] then m10 else m11)"

definition OPERATIONS_DICT :: "string \<rightharpoonup> complex tensor" where
  "OPERATIONS_DICT =
     [''I'' \<mapsto> mat2 1 0 0 1,
      ''X'' \<mapsto> mat2 0 1 1 0,
      ''Y'' \<mapsto> mat2 0 (- \<i>) \<i> 0,
      ''Z'' \<mapsto> mat2 1 0 0 (- 1)]"

section \<open>Rotation gates\<close>

text \<open>\<open>rot_matrices(theta, P, I, batch_size)\<close>, lines 112-144.\<close>

definition rot_matrices ::
  "real tensor \<Rightarrow> complex tensor \<Rightarrow> complex tensor \<Rightarrow> nat \<Rightarrow> error + complex tensor" where
  "rot_matrices theta P I batch_size =
     then_e (unsqueeze 0 (map_t cos (map_t (\<lambda>x. x / 2) theta))) (\<lambda>c0.
     then_e (unsqueeze 1 c0) (\<lambda>c1.
     then_e (repeat_t [2, 2, 1] c1) (\<lambda>cos_t.
     then_e (unsqueeze 0 (map_t sin (map_t (\<lambda>x. x / 2) theta))) (\<lambda>s0.
     then_e (unsqueeze 1 s0) (\<lambda>s1.
     then_e (repeat_t [2, 2, 1] s1) (\<lambda>sin_t.
     then_e (unsqueeze 2 I) (\<lambda>I2.
     then_e (repeat_t [1, 1, batch_size] I2) (\<lambda>batch_imat.
     then_e (unsqueeze 2 P) (\<lambda>P2.
     then_e (repeat_t [1, 1, batch_size] P2) (\<lambda>batch_operation_mat.
     then_e (zip_t (\<lambda>x z. complex_of_real x * z) cos_t batch_imat) (\<lambda>lhs.
     then_e (zip_t (*) (map_t (\<lambda>x. \<i> * complex_of_real x) sin_t) batch_operation_mat) (\<lambda>rhs.
     zip_t (-) lhs rhs))))))))))))"

text \<open>
  A \<open>RotationGate\<close> object: the constructor looks the base matrices up in the registry
  (an unknown gate name is a KeyError).
\<close>

record rotation_gate =
  qubits :: "nat list"
  n_qubits :: nat
  gate :: string
  imat :: "complex tensor"
  paulimat :: "complex tensor"

definition RotationGate_init :: "string \<Rightarrow> nat list \<Rightarrow> nat \<Rightarrow> error + rotation_gate" where
  "RotationGate_init g qs n =
     (case OPERATIONS_DICT ''I'' of None \<Rightarrow> Inl KeyError | Some I \<Rightarrow>
      (case OPERATIONS_DICT g of None \<Rightarrow> Inl KeyError | Some P \<Rightarrow>
         Inr \<lparr>qubits = qs, n_qubits = n, gate = g, imat = I, paulimat = P\<rparr>))"

text \<open>\<open>RotationGate.matrices(thetas)\<close>, lines 46-64.\<close>

definition RotationGate_matrices :: "rotation_gate \<Rightarrow> real tensor \<Rightarrow> error + complex tensor" where
  "RotationGate_matrices self thetas =
     then_e (if ndim thetas = 2 then squeeze 0 thetas else Inr thetas) (\<lambda>theta.
     then_e (len_t theta) (\<lambda>batch_size.
     rot_matrices theta (rotation_gate.paulimat self) (rotation_gate.imat self) batch_size))"

section \<open>The collaborators\<close>

text \<open>
  Modelled from the spec: \<open>_apply_batch_gate\<close> of \<open>pyqtorch.core.batched_operation\<close>
  is not part of the sources at hand. The spec (section 6, \<open>apply_batch_gate\<close>): it
  contracts the matrix batch against the named qubit axes of the state and preserves all
  other axes and the batch axis; it fails with a ShapeMismatchError if the target qubits
  exceed \<open>n_qubits\<close>, if the leading dimensions of the matrix batch are not
  \<open>2 ^ len(target_qubits)\<close>, or if the batch sizes disagree. A state of \<open>n\<close> qubits
  has the shape \<open>(2, ..., 2, batch_size)\<close> (section 3). The first qubit of the list is
  the most significant bit of the row and column numbers of the matrix (section 4.4: for
  the list control, target the control-low block comes first).
\<close>

definition qubit_row :: "nat list \<Rightarrow> nat list \<Rightarrow> nat" where
  "qubit_row qs idx = foldl (\<lambda>acc q. 2 * acc + idx ! q) 0 qs"

fun with_qubits :: "nat list \<Rightarrow> nat \<Rightarrow> nat list \<Rightarrow> nat list" where
  "with_qubits [] col idx = idx"
| "with_qubits (q # qs) col idx =
     with_qubits qs (col mod 2 ^ length qs) (idx[q := col div 2 ^ length qs])"

definition apply_batch_gate ::
  "complex tensor \<Rightarrow> complex tensor \<Rightarrow> nat list \<Rightarrow> nat \<Rightarrow> nat \<Rightarrow> error + complex tensor" where
  "apply_batch_gate state mat qs n batch_size =
     (if (\<exists>q \<in> set qs. n \<le> q)
         \<or> shape mat \<noteq> [2 ^ length qs, 2 ^ length qs, batch_size]
         \<or> shape state \<noteq> replicate n 2 @ [batch_size]
      then Inl ShapeMismatchError
      else Inr (Tensor (shape state)
             (\<lambda>idx. \<Sum>col \<leftarrow> [0..<2 ^ length qs].
                      elem mat [qubit_row qs idx, col, last idx] * elem state (with_qubits qs col idx))))"

text \<open>
  Modelled from the spec: \<open>create_controlled_batch_from_operation\<close> of
  \<open>pyqtorch.core.batched_operation\<close> is not part of the sources at hand. The spec
  (section 6, \<open>embed_as_controlled\<close>): it returns a matrix batch of double the linear
  dimension with the given batch embedded in the lower-right block and identity
  elsewhere; it fails if the matrix batch is not square.
\<close>

definition create_controlled_batch_from_operation ::
  "complex tensor \<Rightarrow> nat \<Rightarrow> error + complex tensor" where
  "create_controlled_batch_from_operation mat batch_size =
     (case shape mat of
        [m, n, b] \<Rightarrow>
          if m \<noteq> n \<or> b \<noteq> batch_size then Inl ShapeMismatchError
          else Inr (Tensor [2 * m, 2 * m, batch_size]
                 (\<lambda>idx. if m \<le> idx ! 0 \<and> m \<le> idx ! 1
                        then elem mat [idx ! 0 - m, idx ! 1 - m, idx ! 2]
                        else if idx ! 0 = idx ! 1 then 1 else 0))
      | _ \<Rightarrow> Inl ShapeMismatchError)"

text \<open>\<open>RotationGate.apply\<close> (lines 66-85) and \<open>RotationGate.forward\<close> (lines 87-106).\<close>

definition RotationGate_apply ::
  "rotation_gate \<Rightarrow> complex tensor \<Rightarrow> complex tensor \<Rightarrow> error + complex tensor" where
  "RotationGate_apply self matrices state =
     then_e (size_last matrices) (\<lambda>batch_size.
     apply_batch_gate state matrices (rotation_gate.qubits self) (rotation_gate.n_qubits self)
       batch_size)"

definition RotationGate_forward ::
  "rotation_gate \<Rightarrow> complex tensor \<Rightarrow> real tensor \<Rightarrow> error + complex tensor" where
  "RotationGate_forward self state thetas =
     then_e (RotationGate_matrices self thetas) (\<lambda>mats.
     RotationGate_apply self mats state)"

text \<open>\<open>RX\<close>, \<open>RY\<close>, \<open>RZ\<close> (lines 258-338).\<close>

definition RX :: "nat list \<Rightarrow> nat \<Rightarrow> error + rotation_gate" where
  "RX qs n = RotationGate_init ''X'' qs n"

definition RY :: "nat list \<Rightarrow> nat \<Rightarrow> error + rotation_gate" where
  "RY qs n = RotationGate_init ''Y'' qs n"

definition RZ :: "nat list \<Rightarrow> nat \<Rightarrow> error + rotation_gate" where
  "RZ qs n = RotationGate_init ''Z'' qs n"

section \<open>The U gate\<close>

text \<open>
  Class \<open>U\<close> (lines 147-226). The buffers \<open>a\<close>, \<open>b\<close>, \<open>c\<close>, \<open>d\<close> of the source
  are the fields \<open>u_a\<close>, \<open>u_b\<close>, \<open>u_c\<close>, \<open>u_d\<close>.
\<close>

record u_gate =
  qubits :: "nat list"
  n_qubits :: nat
  u_a :: "complex tensor"
  u_b :: "complex tensor"
  u_c :: "complex tensor"
  u_d :: "complex tensor"

definition U_init :: "nat list \<Rightarrow> nat \<Rightarrow> error + u_gate" where
  "U_init qs n =
     then_e (unsqueeze 2 (mat2 1 0 0 0)) (\<lambda>a.
     then_e (unsqueeze 2 (mat2 0 1 0 0)) (\<lambda>b.
     then_e (unsqueeze 2 (mat2 0 0 1 0)) (\<lambda>c.
     then_e (unsqueeze 2 (mat2 0 0 0 1)) (\<lambda>d.
     Inr \<lparr>qubits = qs, n_qubits = n, u_a = a, u_b = b, u_c = c, u_d = d\<rparr>))))"

definition U_matrices :: "u_gate \<Rightarrow> real tensor \<Rightarrow> error + complex tensor" where
  "U_matrices self thetas0 =
     then_e (if ndim thetas0 = 1 then unsqueeze 1 thetas0 else Inr thetas0) (\<lambda>thetas.
     then_e (size_t thetas 0) (\<lambda>n0.
     if n0 \<noteq> 3 then Inl AssertionError else
     then_e (index_row 0 thetas) (\<lambda>phi.
     then_e (index_row 1 thetas) (\<lambda>theta.
     then_e (index_row 2 thetas) (\<lambda>omega.
     then_e (size_t thetas 1) (\<lambda>batch_size.
     then_e (zip_t (+) phi omega) (\<lambda>phi_plus_omega.
     then_e (zip_t (-) phi omega) (\<lambda>phi_minus_omega.
     let t_plus = map_t exp (map_t (\<lambda>z. z / 2)
                    (map_t (\<lambda>x. (- \<i>) * complex_of_real x) phi_plus_omega));
         t_minus = map_t exp (map_t (\<lambda>z. z / 2)
                    (map_t (\<lambda>x. (- \<i>) * complex_of_real x) phi_minus_omega))
     in
     then_e (unsqueeze 0 (map_t sin (map_t (\<lambda>x. x / 2) theta))) (\<lambda>s0.
     then_e (unsqueeze 1 s0) (\<lambda>s1.
     then_e (repeat_t [2, 2, 1] s1) (\<lambda>sin_t.
     then_e (unsqueeze 0 (map_t cos (map_t (\<lambda>x. x / 2) theta))) (\<lambda>c0.
     then_e (unsqueeze 1 c0) (\<lambda>c1.
     then_e (repeat_t [2, 2, 1] c1) (\<lambda>cos_t.
     then_e (repeat_t [1, 1, batch_size] (u_a self)) (\<lambda>a0.
     then_e (zip_t (\<lambda>z x. z * complex_of_real x) a0 cos_t) (\<lambda>a1.
     then_e (zip_t (*) a1 t_plus) (\<lambda>a.
     then_e (repeat_t [1, 1, batch_size] (u_b self)) (\<lambda>b0.
     then_e (zip_t (\<lambda>z x. z * complex_of_real x) b0 sin_t) (\<lambda>b1.
     then_e (zip_t (*) b1 (map_t cnj t_minus)) (\<lambda>b.
     then_e (repeat_t [1, 1, batch_size] (u_c self)) (\<lambda>c0.
     then_e (zip_t (\<lambda>z x. z * complex_of_real x) c0 sin_t) (\<lambda>c1.
     then_e (zip_t (*) c1 t_minus) (\<lambda>c.
     then_e (repeat_t [1, 1, batch_size] (u_d self)) (\<lambda>d0.
     then_e (zip_t (\<lambda>z x. z * complex_of_real x) d0 cos_t) (\<lambda>d1.
     then_e (zip_t (*) d1 (map_t cnj t_plus)) (\<lambda>d.
     then_e (zip_t (-) a b) (\<lambda>a_b.
     then_e (zip_t (+) a_b c) (\<lambda>a_b_c.
     zip_t (+) a_b_c d))))))))))))))))))))))))))))"

definition U_apply ::
  "u_gate \<Rightarrow> complex tensor \<Rightarrow> complex tensor \<Rightarrow> error + complex tensor" where
  "U_apply self matrices state =
     then_e (size_last matrices) (\<lambda>batch_size.
     apply_batch_gate state matrices (u_gate.qubits self) (u_gate.n_qubits self) batch_size)"

definition U_forward ::
  "u_gate \<Rightarrow> complex tensor \<Rightarrow> real tensor \<Rightarrow> error + complex tensor" where
  "U_forward self state thetas =
     then_e (U_matrices self thetas) (\<lambda>mats.
     U_apply self mats state)"

section \<open>Controlled rotation gates\<close>

text \<open>Class \<open>ControlledRotationGate\<close> (lines 229-255) and \<open>CRX\<close>, \<open>CRY\<close>, \<open>CRZ\<close>.\<close>

record controlled_rotation_gate =
  qubits :: "nat list"
  n_qubits :: nat
  gate :: string
  imat :: "complex tensor"
  paulimat :: "complex tensor"

definition ControlledRotationGate_init ::
  "string \<Rightarrow> nat list \<Rightarrow> nat \<Rightarrow> error + controlled_rotation_gate" where
  "ControlledRotationGate_init g qs n =
     (case OPERATIONS_DICT ''I'' of None \<Rightarrow> Inl KeyError | Some I \<Rightarrow>
      (case OPERATIONS_DICT g of None \<Rightarrow> Inl KeyError | Some P \<Rightarrow>
         Inr \<lparr>qubits = qs, n_qubits = n, gate = g, imat = I, paulimat = P\<rparr>))"

definition ControlledRotationGate_matrices ::
  "controlled_rotation_gate \<Rightarrow> real tensor \<Rightarrow> error + complex tensor" where
  "ControlledRotationGate_matrices self thetas =
     then_e (if ndim thetas = 2 then squeeze 0 thetas else Inr thetas) (\<lambda>theta.
     then_e (len_t theta) (\<lambda>batch_size.
     rot_matrices theta (controlled_rotation_gate.paulimat self)
       (controlled_rotation_gate.imat self) batch_size))"

definition ControlledRotationGate_apply ::
  "controlled_rotation_gate \<Rightarrow> complex tensor \<Rightarrow> complex tensor \<Rightarrow> error + complex tensor" where
  "ControlledRotationGate_apply self matrices state =
     then_e (size_last matrices) (\<lambda>batch_size.
     then_e (create_controlled_batch_from_operation matrices batch_size) (\<lambda>controlled_mats.
     apply_batch_gate state controlled_mats (controlled_rotation_gate.qubits self)
       (controlled_rotation_gate.n_qubits self) batch_size))"

definition ControlledRotationGate_forward ::
  "controlled_rotation_gate \<Rightarrow> complex tensor \<Rightarrow> real tensor \<Rightarrow> error + complex tensor" where
  "ControlledRotationGate_forward self state thetas =
     then_e (ControlledRotationGate_matrices self thetas) (\<lambda>mats.
     ControlledRotationGate_apply self mats state)"

definition CRX :: "nat list \<Rightarrow> nat \<Rightarrow> error + controlled_rotation_gate" where
  "CRX qs n = ControlledRotationGate_init ''X'' qs n"

definition CRY :: "nat list \<Rightarrow> nat \<Rightarrow> error + controlled_rotation_gate" where
  "CRY qs n = ControlledRotationGate_init ''Y'' qs n"

definition CRZ :: "nat list \<Rightarrow> nat \<Rightarrow> error + controlled_rotation_gate" where
  "CRZ qs n = ControlledRotationGate_init ''Z'' qs n"

section \<open>The controlled phase gate\<close>

text \<open>
  \<open>CPHASE.matrices\<close> (lines 462-471) assigns into a tensor in place, so the tensors it
  touches live in a store: a tensor object is a handle, the address of a storage and the
  order in which the handle reads the axes of that storage. \<open>repeat\<close> copies into a new
  storage, \<open>torch.permute\<close> returns a view of the storage of its argument, and an
  indexed assignment writes into the storage of its target. The store is the list of all
  storages allocated so far; an address is a position in it.
\<close>

type_synonym store = "complex tensor list"

record handle =
  addr :: nat
  axes :: "nat list"

definition alloc :: "complex tensor \<Rightarrow> store \<Rightarrow> handle \<times> store" where
  "alloc v s = (\<lparr>addr = length s, axes = [0..<ndim v]\<rparr>, s @ [v])"

text \<open>The storage index that a view index stands for: axis \<open>i\<close> of the view is axis
  \<open>axes ! i\<close> of the storage.\<close>

definition scatter :: "nat list \<Rightarrow> nat list \<Rightarrow> nat list" where
  "scatter ax idx = fold (\<lambda>(a, i) acc. acc[a := i]) (zip ax idx) (replicate (length ax) 0)"

definition gather :: "nat list \<Rightarrow> nat list \<Rightarrow> nat list" where
  "gather ax j = map (\<lambda>a. j ! a) ax"

definition load :: "store \<Rightarrow> handle \<Rightarrow> error + complex tensor" where
  "load s h =
     (if addr h < length s
      then Inr (Tensor (gather (axes h) (shape (s ! addr h)))
                  (\<lambda>idx. elem (s ! addr h) (scatter (axes h) idx)))
      else Inl RuntimeError)"

definition repeat_h :: "nat list \<Rightarrow> handle \<Rightarrow> store \<Rightarrow> error + handle \<times> store" where
  "repeat_h reps h s =
     then_e (load s h) (\<lambda>v.
     then_e (repeat_t reps v) (\<lambda>r.
     Inr (alloc r s)))"

definition permute_h :: "nat list \<Rightarrow> handle \<Rightarrow> error + handle" where
  "permute_h p h =
     (if length p = length (axes h) \<and> distinct p \<and> (\<forall>i \<in> set p. i < length (axes h))
      then Inr (h\<lparr>axes := map (\<lambda>i. axes h ! i) p\<rparr>)
      else Inl RuntimeError)"

text \<open>
  \<open>t[i, j, :] = v\<close>: every position of the index is an integer or a full slice, and
  positions left out are full slices. The value loses its leading axes of size 1 and is
  then expanded to the shape of the selected part; an integer out of range or too many
  positions is an IndexError, a value that does not expand a RuntimeError.
\<close>

datatype ix = At nat | All

definition selected :: "ix list \<Rightarrow> nat list \<Rightarrow> bool" where
  "selected ixs idx = list_all2 (\<lambda>x i. case x of At n \<Rightarrow> i = n | All \<Rightarrow> True) ixs idx"

definition free_part :: "ix list \<Rightarrow> nat list \<Rightarrow> nat list" where
  "free_part ixs idx = map snd (filter (\<lambda>(x, i). x = All) (zip ixs idx))"

definition expandable :: "nat list \<Rightarrow> nat list \<Rightarrow> bool" where
  "expandable src dst \<longleftrightarrow>
     length src \<le> length dst \<and>
     list_all2 (\<lambda>m n. m = n \<or> m = 1) src (drop (length dst - length src) dst)"

definition setitem :: "handle \<Rightarrow> ix list \<Rightarrow> complex tensor \<Rightarrow> store \<Rightarrow> error + store" where
  "setitem h ixs0 v s =
     then_e (load s h) (\<lambda>view.
     if ndim view < length ixs0 then Inl IndexError
     else
       (let ixs = ixs0 @ replicate (ndim view - length ixs0) All;
            dst = free_part ixs (shape view);
            src = dropWhile (\<lambda>n. n = 1) (shape v);
            lead = length (shape v) - length src;
            base = s ! addr h
        in if \<not> list_all2 (\<lambda>x n. case x of At i \<Rightarrow> i < n | All \<Rightarrow> True) ixs (shape view)
           then Inl IndexError
           else if \<not> expandable src dst then Inl RuntimeError
           else Inr (s[addr h :=
                  Tensor (shape base)
                    (\<lambda>j. let idx = gather (axes h) j
                         in if selected ixs idx
                            then elem v (replicate lead 0 @ bidx src (free_part ixs idx))
                            else elem base j)])))"

text \<open>\<open>torch.eye(n)\<close>.\<close>

definition eye :: "nat \<Rightarrow> complex tensor" where
  "eye n = Tensor [n, n] (\<lambda>idx. if idx ! 0 = idx ! 1 then 1 else 0)"

record cphase_gate =
  qubits :: "nat list"
  n_qubits :: nat
  imat :: handle

definition CPHASE_init :: "nat list \<Rightarrow> nat \<Rightarrow> store \<Rightarrow> cphase_gate \<times> store" where
  "CPHASE_init qs n s =
     (case alloc (eye 4) s of (h, s') \<Rightarrow> (\<lparr>qubits = qs, n_qubits = n, imat = h\<rparr>, s'))"

definition CPHASE_matrices ::
  "cphase_gate \<Rightarrow> real tensor \<Rightarrow> store \<Rightarrow> error + handle \<times> store" where
  "CPHASE_matrices self thetas s =
     then_e (if ndim thetas = 2 then squeeze 0 thetas else Inr thetas) (\<lambda>theta.
     then_e (len_t theta) (\<lambda>batch_size.
     then_e (repeat_h [batch_size, 1, 1] (cphase_gate.imat self) s) (\<lambda>(mat0, s1).
     then_e (permute_h [1, 2, 0] mat0) (\<lambda>mat.
     then_e (unsqueeze 0 (map_t exp (map_t (\<lambda>x. \<i> * complex_of_real x) theta))) (\<lambda>p0.
     then_e (unsqueeze 1 p0) (\<lambda>phase_rotation_angles.
     then_e (setitem mat [At 3, At 3, All] phase_rotation_angles s1) (\<lambda>s2.
     Inr (mat, s2))))))))"

definition CPHASE_apply ::
  "cphase_gate \<Rightarrow> handle \<Rightarrow> complex tensor \<Rightarrow> store \<Rightarrow> error + complex tensor" where
  "CPHASE_apply self matrices state s =
     then_e (load s matrices) (\<lambda>m.
     then_e (size_last m) (\<lambda>batch_size.
     apply_batch_gate state m (cphase_gate.qubits self) (cphase_gate.n_qubits self) batch_size))"

definition CPHASE_forward ::
  "cphase_gate \<Rightarrow> complex tensor \<Rightarrow> real tensor \<Rightarrow> store
     \<Rightarrow> error + complex tensor \<times> store" where
  "CPHASE_forward self state thetas s =
     then_e (CPHASE_matrices self thetas s) (\<lambda>(mats, s1).
     then_e (CPHASE_apply self mats state s1) (\<lambda>new_state.
     Inr (new_state, s1)))"

section \<open>Reading the results\<close>

text \<open>
  The angle of batch element \<open>k\<close> in a parameter tensor of shape \<open>(B)\<close> or
  \<open>(1, B)\<close>.
\<close>

definition angle :: "real tensor \<Rightarrow> nat \<Rightarrow> real" where
  "angle thetas k = (if ndim thetas = 2 then elem thetas [0, k] else elem thetas [k])"

text \<open>
  Slice \<open>k\<close> of a matrix batch, and the matrix product, the conjugate transpose and
  the identity test of \<open>d \<times> d\<close> matrices that state the algebraic claims.
\<close>

definition slice :: "complex tensor \<Rightarrow> nat \<Rightarrow> nat \<Rightarrow> nat \<Rightarrow> complex" where
  "slice M k i j = elem M [i, j, k]"

definition mat_mul ::
  "nat \<Rightarrow> (nat \<Rightarrow> nat \<Rightarrow> complex) \<Rightarrow> (nat \<Rightarrow> nat \<Rightarrow> complex) \<Rightarrow> nat \<Rightarrow> nat \<Rightarrow> complex" where
  "mat_mul d A B i j = (\<Sum>l<d. A i l * B l j)"

definition dagger :: "(nat \<Rightarrow> nat \<Rightarrow> complex) \<Rightarrow> nat \<Rightarrow> nat \<Rightarrow> complex" where
  "dagger A i j = cnj (A j i)"

definition is_identity :: "nat \<Rightarrow> (nat \<Rightarrow> nat \<Rightarrow> complex) \<Rightarrow> bool" where
  "is_identity d A \<longleftrightarrow> (\<forall>i<d. \<forall>j<d. A i j = (if i = j then 1 else 0))"

definition unitary :: "nat \<Rightarrow> (nat \<Rightarrow> nat \<Rightarrow> complex) \<Rightarrow> bool" where
  "unitary d A \<longleftrightarrow> is_identity d (mat_mul d A (dagger A))"

text \<open>
  The gate object of a \<open>CPHASE\<close> is registered in a store when its buffer \<open>imat\<close>
  is a live handle on the 4x4 identity, as the constructor leaves it.
\<close>

definition registered :: "cphase_gate \<Rightarrow> store \<Rightarrow> bool" where
  "registered self s \<longleftrightarrow>
     addr (cphase_gate.imat self) < length s \<and> axes (cphase_gate.imat self) = [0, 1]
     \<and> s ! addr (cphase_gate.imat self) = eye 4"

text \<open>
  The multi-indices inside a shape, and the states whose control qubit \<open>c\<close> is fixed
  at the basis value \<open>v\<close>: every amplitude at an index with another value of axis
  \<open>c\<close> is zero.
\<close>

definition in_bounds :: "nat list \<Rightarrow> nat list \<Rightarrow> bool" where
  "in_bounds sh idx \<longleftrightarrow> length idx = length sh \<and> (\<forall>i < length sh. idx ! i < sh ! i)"

definition control_fixed :: "complex tensor \<Rightarrow> nat \<Rightarrow> nat \<Rightarrow> bool" where
  "control_fixed state c v \<longleftrightarrow>
     (\<forall>idx. in_bounds (shape state) idx \<and> idx ! c \<noteq> v \<longrightarrow> elem state idx = 0)"

lemmas store_defs = repeat_h_def load_def alloc_def permute_h_def setitem_def gather_def
  scatter_def free_part_def expandable_def selected_def

lemmas tensor_defs =
  then_e_def unsqueeze_def squeeze_def ndim_def repeat_t_def map_t_def zip_t_def
  broadcast_shapes_def Let_def bidx_def len_t_def size_t_def index_row_def size_last_def

section \<open>The rotation matrices\<close>

lemma rot_matrices_value:
  "\<exists>M. rot_matrices (Tensor [B] f) (Tensor [2, 2] p) (Tensor [2, 2] q) B = Inr M
     \<and> shape M = [2, 2, B]
     \<and> (\<forall>i<2. \<forall>j<2. \<forall>k<B. elem M [i, j, k] =
           complex_of_real (cos (f [k] / 2)) * q [i, j]
           - \<i> * complex_of_real (sin (f [k] / 2)) * p [i, j])"
  by (simp add: rot_matrices_def tensor_defs)

lemma rot_matrices_closed:
  assumes "shape theta = [B]" "shape P = [2, 2]" "shape I = [2, 2]"
  shows "\<exists>M. rot_matrices theta P I B = Inr M \<and> shape M = [2, 2, B]
    \<and> (\<forall>i<2. \<forall>j<2. \<forall>k<B. elem M [i, j, k] =
         complex_of_real (cos (elem theta [k] / 2)) * elem I [i, j]
         - \<i> * complex_of_real (sin (elem theta [k] / 2)) * elem P [i, j])"
proof -
  obtain f where t: "theta = Tensor [B] f" using assms(1) by (cases theta) auto
  obtain p where p: "P = Tensor [2, 2] p" using assms(2) by (cases P) auto
  obtain q where q: "I = Tensor [2, 2] q" using assms(3) by (cases I) auto
  show ?thesis using rot_matrices_value[of B f p q] by (simp add: t p q)
qed

lemma squeeze_row:
  assumes "shape thetas = [1, B]"
  shows "\<exists>f. squeeze 0 thetas = Inr (Tensor [B] f) \<and> (\<forall>k. f [k] = elem thetas [0, k])"
proof -
  obtain g where t: "thetas = Tensor [1, B] g" using assms by (cases thetas) auto
  show ?thesis by (simp add: t squeeze_def ndim_def)
qed

lemma RotationGate_matrices_value:
  assumes "shape thetas = [B] \<or> shape thetas = [1, B]"
    and "shape (rotation_gate.paulimat self) = [2, 2]"
    and "shape (rotation_gate.imat self) = [2, 2]"
  shows "\<exists>M. RotationGate_matrices self thetas = Inr M \<and> shape M = [2, 2, B]
    \<and> (\<forall>i<2. \<forall>j<2. \<forall>k<B. elem M [i, j, k] =
         complex_of_real (cos (angle thetas k / 2)) * elem (rotation_gate.imat self) [i, j]
         - \<i> * complex_of_real (sin (angle thetas k / 2))
             * elem (rotation_gate.paulimat self) [i, j])"
  using assms(1)
proof
  assume s: "shape thetas = [B]"
  show ?thesis using rot_matrices_closed[OF s assms(2,3)]
    by (simp add: RotationGate_matrices_def then_e_def ndim_def len_t_def s angle_def)
next
  assume s: "shape thetas = [1, B]"
  obtain f where sq: "squeeze 0 thetas = Inr (Tensor [B] f)"
    and f: "\<And>k. f [k] = elem thetas [0, k]"
    using squeeze_row[OF s] by blast
  show ?thesis using rot_matrices_closed[of "Tensor [B] f" B, OF _ assms(2,3)]
    by (simp add: RotationGate_matrices_def then_e_def ndim_def len_t_def s angle_def sq f)
qed

text \<open>
  C1. For an angle batch of shape \<open>(B)\<close>, or of shape \<open>(1, B)\<close> (the leading axis is
  squeezed), and 2x2 matrices \<open>P\<close> and \<open>I\<close>, \<open>RotationGate.matrices\<close> returns a batch
  of shape \<open>(2, 2, B)\<close> whose slice at batch index \<open>k\<close> is
  \<open>cos(theta_k / 2) * I - i * sin(theta_k / 2) * P\<close>; on an angle batch of rank 1 this
  is the value of \<open>rot_matrices\<close> with the length of the batch as batch size.
\<close>

theorem rotation_matrices_closed_form:
  assumes "shape thetas = [B] \<or> shape thetas = [1, B]"
    and "rotation_gate.paulimat self = P" and "rotation_gate.imat self = I"
    and "shape P = [2, 2]" and "shape I = [2, 2]"
  shows "(\<exists>M. RotationGate_matrices self thetas = Inr M \<and> shape M = [2, 2, B]
      \<and> (\<forall>i<2. \<forall>j<2. \<forall>k<B. elem M [i, j, k] =
           complex_of_real (cos (angle thetas k / 2)) * elem I [i, j]
           - \<i> * complex_of_real (sin (angle thetas k / 2)) * elem P [i, j]))
    \<and> (shape thetas = [B] \<longrightarrow>
         len_t thetas = Inr B \<and> RotationGate_matrices self thetas = rot_matrices thetas P I B)"
proof -
  have "shape (rotation_gate.paulimat self) = [2, 2]" "shape (rotation_gate.imat self) = [2, 2]"
    using assms by simp_all
  from RotationGate_matrices_value[OF assms(1) this]
  have first: "\<exists>M. RotationGate_matrices self thetas = Inr M \<and> shape M = [2, 2, B]
      \<and> (\<forall>i<2. \<forall>j<2. \<forall>k<B. elem M [i, j, k] =
           complex_of_real (cos (angle thetas k / 2)) * elem I [i, j]
           - \<i> * complex_of_real (sin (angle thetas k / 2)) * elem P [i, j])"
    by (simp add: assms(2,3))
  have second: "shape thetas = [B] \<longrightarrow>
      len_t thetas = Inr B \<and> RotationGate_matrices self thetas = rot_matrices thetas P I B"
    by (simp add: RotationGate_matrices_def then_e_def ndim_def len_t_def assms(2,3))
  show ?thesis using first second by blast
qed

theorem rotation_matrices_closed_form_witness:
  "\<exists>M. RotationGate_matrices
         \<lparr>rotation_gate.qubits = [0], rotation_gate.n_qubits = 1, rotation_gate.gate = ''X'',
           rotation_gate.imat = mat2 1 0 0 1, rotation_gate.paulimat = mat2 0 1 1 0\<rparr>
         (Tensor [2] (\<lambda>idx. 0)) = Inr M
     \<and> shape M = [2, 2, 2]
     \<and> elem M [0, 0, 1] = 1 \<and> elem M [0, 1, 1] = 0
     \<and> rot_matrices (Tensor [2] (\<lambda>idx. 0)) (mat2 0 1 1 0) (mat2 1 0 0 1) 2 = Inr M"
proof -
  let ?g = "\<lparr>rotation_gate.qubits = [0], rotation_gate.n_qubits = 1, rotation_gate.gate = ''X'',
           rotation_gate.imat = mat2 1 0 0 1, rotation_gate.paulimat = mat2 0 1 1 0\<rparr>"
  let ?t = "Tensor [2] (\<lambda>idx. 0) :: real tensor"
  have "shape ?t = [2] \<or> shape ?t = [1, 2]" by simp
  from rotation_matrices_closed_form[OF this, of ?g "mat2 0 1 1 0" "mat2 1 0 0 1"]
  obtain M where m: "RotationGate_matrices ?g ?t = Inr M" "shape M = [2, 2, 2]"
    and e: "\<forall>i<2. \<forall>j<2. \<forall>k<2. elem M [i, j, k] =
           complex_of_real (cos (angle ?t k / 2)) * elem (mat2 1 0 0 1) [i, j]
           - \<i> * complex_of_real (sin (angle ?t k / 2)) * elem (mat2 0 1 1 0) [i, j]"
    and r: "RotationGate_matrices ?g ?t = rot_matrices ?t (mat2 0 1 1 0) (mat2 1 0 0 1) 2"
    by (auto simp: mat2_def)
  have "elem M [0, 0, 1] = 1" "elem M [0, 1, 1] = 0"
    using e by (simp_all add: angle_def ndim_def mat2_def)
  moreover have "rot_matrices ?t (mat2 0 1 1 0) (mat2 1 0 0 1) 2 = Inr M"
    using m(1) r by simp
  ultimately show ?thesis using m by blast
qed

section \<open>The entries of the gate matrices\<close>

lemma mat_mul_2: "mat_mul 2 A B i j = A i 0 * B 0 j + A i 1 * B 1 j"
  by (simp add: mat_mul_def eval_nat_numeral)

lemma mat_mul_4:
  "mat_mul 4 A B i j = A i 0 * B 0 j + A i 1 * B 1 j + A i 2 * B 2 j + A i 3 * B 3 j"
  by (simp add: mat_mul_def eval_nat_numeral)

lemma nat_less_2: "(i::nat) < 2 \<Longrightarrow> i = 0 \<or> i = 1"
  by auto

lemma nat_less_4: "(i::nat) < 4 \<Longrightarrow> i = 0 \<or> i = 1 \<or> i = 2 \<or> i = 3"
  by auto

lemma exp_to_cis_plus:
  "exp (- (\<i> * (complex_of_real a + complex_of_real b) / 2)) = cis (- ((a + b) / 2))"
  by (simp add: complex_eq_iff Re_exp Im_exp)

lemma exp_to_cis_minus:
  "exp (- (\<i> * (complex_of_real a - complex_of_real b) / 2)) = cis (- ((a - b) / 2))"
  by (simp add: complex_eq_iff Re_exp Im_exp)

lemma cos_sin_to_cis:
  "complex_of_real (cos x) - \<i> * complex_of_real (sin x) = cis (- x)"
  "complex_of_real (cos x) + \<i> * complex_of_real (sin x) = cis x"
  by (simp_all add: complex_eq_iff)

lemma i_sandwich: "\<i> * z * \<i> = - z"
  by (simp add: complex_eq_iff)

lemma registry_gate:
  assumes "RotationGate_init g qs n = Inr self"
  shows "OPERATIONS_DICT g = Some (rotation_gate.paulimat self)"
    and "rotation_gate.imat self = mat2 1 0 0 1"
  using assms
  by (auto simp: RotationGate_init_def OPERATIONS_DICT_def split: option.splits if_splits)

lemma RotationGate_entries:
  assumes "rotation_gate.paulimat self = mat2 p00 p01 p10 p11"
    and "rotation_gate.imat self = mat2 1 0 0 1"
    and "shape thetas = [B] \<or> shape thetas = [1, B]"
  shows "\<exists>M. RotationGate_matrices self thetas = Inr M \<and> shape M = [2, 2, B] \<and>
     (\<forall>k<B.
        elem M [0, 0, k] = complex_of_real (cos (angle thetas k / 2))
                            - \<i> * complex_of_real (sin (angle thetas k / 2)) * p00
      \<and> elem M [0, 1, k] = - \<i> * complex_of_real (sin (angle thetas k / 2)) * p01
      \<and> elem M [1, 0, k] = - \<i> * complex_of_real (sin (angle thetas k / 2)) * p10
      \<and> elem M [1, 1, k] = complex_of_real (cos (angle thetas k / 2))
                            - \<i> * complex_of_real (sin (angle thetas k / 2)) * p11)"
proof -
  have sh: "shape (rotation_gate.paulimat self) = [2, 2]"
    "shape (rotation_gate.imat self) = [2, 2]"
    by (simp_all add: assms(1,2) mat2_def)
  from RotationGate_matrices_value[OF assms(3) sh]
  obtain M where m: "RotationGate_matrices self thetas = Inr M" "shape M = [2, 2, B]"
    and e: "\<And>i j k. i < 2 \<Longrightarrow> j < 2 \<Longrightarrow> k < B \<Longrightarrow> elem M [i, j, k] =
         complex_of_real (cos (angle thetas k / 2)) * elem (rotation_gate.imat self) [i, j]
         - \<i> * complex_of_real (sin (angle thetas k / 2))
             * elem (rotation_gate.paulimat self) [i, j]"
    by blast
  show ?thesis using m by (simp add: e assms(1,2) mat2_def)
qed

lemma RX_entries:
  assumes "RX qs n = Inr self" "shape thetas = [B] \<or> shape thetas = [1, B]"
  shows "\<exists>M. RotationGate_matrices self thetas = Inr M \<and> shape M = [2, 2, B] \<and>
     (\<forall>k<B.
        elem M [0, 0, k] = complex_of_real (cos (angle thetas k / 2))
      \<and> elem M [0, 1, k] = - \<i> * complex_of_real (sin (angle thetas k / 2))
      \<and> elem M [1, 0, k] = - \<i> * complex_of_real (sin (angle thetas k / 2))
      \<and> elem M [1, 1, k] = complex_of_real (cos (angle thetas k / 2)))"
proof -
  have "rotation_gate.paulimat self = mat2 0 1 1 0"
    using registry_gate(1)[OF assms(1)[unfolded RX_def]] by (simp add: OPERATIONS_DICT_def)
  from RotationGate_entries[OF this registry_gate(2)[OF assms(1)[unfolded RX_def]] assms(2)]
  show ?thesis by simp
qed

lemma RY_entries:
  assumes "RY qs n = Inr self" "shape thetas = [B] \<or> shape thetas = [1, B]"
  shows "\<exists>M. RotationGate_matrices self thetas = Inr M \<and> shape M = [2, 2, B] \<and>
     (\<forall>k<B.
        elem M [0, 0, k] = complex_of_real (cos (angle thetas k / 2))
      \<and> elem M [0, 1, k] = - complex_of_real (sin (angle thetas k / 2))
      \<and> elem M [1, 0, k] = complex_of_real (sin (angle thetas k / 2))
      \<and> elem M [1, 1, k] = complex_of_real (cos (angle thetas k / 2)))"
proof -
  have "rotation_gate.paulimat self = mat2 0 (- \<i>) \<i> 0"
    using registry_gate(1)[OF assms(1)[unfolded RY_def]] by (simp add: OPERATIONS_DICT_def)
  from RotationGate_entries[OF this registry_gate(2)[OF assms(1)[unfolded RY_def]] assms(2)]
  show ?thesis by (simp add: i_sandwich)
qed

lemma RZ_entries:
  assumes "RZ qs n = Inr self" "shape thetas = [B] \<or> shape thetas = [1, B]"
  shows "\<exists>M. RotationGate_matrices self thetas = Inr M \<and> shape M = [2, 2, B] \<and>
     (\<forall>k<B.
        elem M [0, 0, k] = cis (- (angle thetas k / 2))
      \<and> elem M [0, 1, k] = 0
      \<and> elem M [1, 0, k] = 0
      \<and> elem M [1, 1, k] = cis (angle thetas k / 2))"
proof -
  have "rotation_gate.paulimat self = mat2 1 0 0 (- 1)"
    using registry_gate(1)[OF assms(1)[unfolded RZ_def]] by (simp add: OPERATIONS_DICT_def)
  from RotationGate_entries[OF this registry_gate(2)[OF assms(1)[unfolded RZ_def]] assms(2)]
  show ?thesis by (simp add: cos_sin_to_cis)
qed

lemma U_matrices_value:
  assumes "U_init qs n = Inr self"
  shows "\<exists>M. U_matrices self (Tensor [3, B] f) = Inr M \<and> shape M = [2, 2, B]
    \<and> (\<forall>k<B.
         elem M [0, 0, k] =
           complex_of_real (cos (f [1, k] / 2)) * cis (- ((f [0, k] + f [2, k]) / 2))
       \<and> elem M [0, 1, k] =
           - complex_of_real (sin (f [1, k] / 2)) * cis ((f [0, k] - f [2, k]) / 2)
       \<and> elem M [1, 0, k] =
           complex_of_real (sin (f [1, k] / 2)) * cis (- ((f [0, k] - f [2, k]) / 2))
       \<and> elem M [1, 1, k] =
           complex_of_real (cos (f [1, k] / 2)) * cis ((f [0, k] + f [2, k]) / 2))"
  using assms
  apply (simp add: U_init_def then_e_def unsqueeze_def ndim_def mat2_def)
  apply (erule subst)
  apply (simp add: U_matrices_def tensor_defs exp_to_cis_plus exp_to_cis_minus cis_cnj)
  done

section \<open>The U gate against the product of rotations\<close>

text \<open>
  C2. For a parameter tensor of shape \<open>(3, B)\<close> with rows \<open>phi\<close>, \<open>theta\<close>,
  \<open>omega\<close>, each batch slice of \<open>U.matrices\<close> equals the matrix product
  \<open>RZ(omega) * RY(theta) * RZ(phi)\<close> of the slices that the rotation gates \<open>RZ\<close> and
  \<open>RY\<close> build from the same angles; the two are equal entry by entry, so in particular
  equal up to a global phase (a factor of modulus 1).
\<close>

theorem U_decomposition:
  assumes "shape thetas = [3, B]"
    and "index_row 0 thetas = Inr phi" "index_row 1 thetas = Inr theta"
    and "index_row 2 thetas = Inr omega"
    and "U_init qs n = Inr u" "RZ qs n = Inr rz" "RY qs n = Inr ry"
  shows "\<exists>MU MZo MY MZp. U_matrices u thetas = Inr MU
      \<and> RotationGate_matrices rz omega = Inr MZo
      \<and> RotationGate_matrices ry theta = Inr MY
      \<and> RotationGate_matrices rz phi = Inr MZp
      \<and> (\<forall>k<B. 
           (\<forall>i<2. \<forall>j<2. slice MU k i j
              = mat_mul 2 (slice MZo k) (mat_mul 2 (slice MY k) (slice MZp k)) i j)
         \<and> (\<exists>c. cmod c = 1 \<and> (\<forall>i<2. \<forall>j<2. slice MU k i j
              = c * mat_mul 2 (slice MZo k) (mat_mul 2 (slice MY k) (slice MZp k)) i j)))"
proof -
  obtain f where t: "thetas = Tensor [3, B] f" using assms(1) by (cases thetas) auto
  have phi: "phi = Tensor [B] (\<lambda>idx. f (0 # idx))"
    and theta: "theta = Tensor [B] (\<lambda>idx. f (1 # idx))"
    and omega: "omega = Tensor [B] (\<lambda>idx. f (2 # idx))"
    using assms(2,3,4) by (auto simp: t index_row_def ndim_def)
  have a: "angle phi k = f [0, k]" "angle theta k = f [1, k]" "angle omega k = f [2, k]" for k
    by (simp_all add: phi theta omega angle_def ndim_def)
  from U_matrices_value[OF assms(5), of B f]
  obtain MU where mu: "U_matrices u thetas = Inr MU"
    and eu: "\<And>k. k < B \<Longrightarrow>
         elem MU [0, 0, k] =
           complex_of_real (cos (f [1, k] / 2)) * cis (- ((f [0, k] + f [2, k]) / 2))
       \<and> elem MU [0, 1, k] =
           - complex_of_real (sin (f [1, k] / 2)) * cis ((f [0, k] - f [2, k]) / 2)
       \<and> elem MU [1, 0, k] =
           complex_of_real (sin (f [1, k] / 2)) * cis (- ((f [0, k] - f [2, k]) / 2))
       \<and> elem MU [1, 1, k] =
           complex_of_real (cos (f [1, k] / 2)) * cis ((f [0, k] + f [2, k]) / 2)"
    unfolding t by blast
  have so: "shape omega = [B] \<or> shape omega = [1, B]" by (simp add: omega)
  have sp: "shape phi = [B] \<or> shape phi = [1, B]" by (simp add: phi)
  have st: "shape theta = [B] \<or> shape theta = [1, B]" by (simp add: theta)
  from RZ_entries[OF assms(6) so]
  obtain MZo where mo: "RotationGate_matrices rz omega = Inr MZo"
    and eo: "\<And>k. k < B \<Longrightarrow> elem MZo [0, 0, k] = cis (- (f [2, k] / 2))
          \<and> elem MZo [0, 1, k] = 0 \<and> elem MZo [1, 0, k] = 0
          \<and> elem MZo [1, 1, k] = cis (f [2, k] / 2)"
    unfolding a by blast
  from RZ_entries[OF assms(6) sp]
  obtain MZp where mp: "RotationGate_matrices rz phi = Inr MZp"
    and ep: "\<And>k. k < B \<Longrightarrow> elem MZp [0, 0, k] = cis (- (f [0, k] / 2))
          \<and> elem MZp [0, 1, k] = 0 \<and> elem MZp [1, 0, k] = 0
          \<and> elem MZp [1, 1, k] = cis (f [0, k] / 2)"
    unfolding a by blast
  from RY_entries[OF assms(7) st]
  obtain MY where my: "RotationGate_matrices ry theta = Inr MY"
    and ey: "\<And>k. k < B \<Longrightarrow> elem MY [0, 0, k] = complex_of_real (cos (f [1, k] / 2))
          \<and> elem MY [0, 1, k] = - complex_of_real (sin (f [1, k] / 2))
          \<and> elem MY [1, 0, k] = complex_of_real (sin (f [1, k] / 2))
          \<and> elem MY [1, 1, k] = complex_of_real (cos (f [1, k] / 2))"
    unfolding a by blast
  have c1: "cis (- ((x + y) / 2)) = cis (- (y / 2)) * cis (- (x / 2))" for x y :: real
    by (simp add: cis_mult add_divide_distrib diff_divide_distrib algebra_simps)
  have c2: "cis ((x - y) / 2) = cis (- (y / 2)) * cis (x / 2)" for x y :: real
    by (simp add: cis_mult add_divide_distrib diff_divide_distrib algebra_simps)
  have c3: "cis (- ((x - y) / 2)) = cis (y / 2) * cis (- (x / 2))" for x y :: real
    by (simp add: cis_mult add_divide_distrib diff_divide_distrib algebra_simps)
  have c4: "cis ((x + y) / 2) = cis (y / 2) * cis (x / 2)" for x y :: real
    by (simp add: cis_mult add_divide_distrib diff_divide_distrib algebra_simps)
  have eq: "slice MU k i j = mat_mul 2 (slice MZo k) (mat_mul 2 (slice MY k) (slice MZp k)) i j"
    if "k < B" "i < 2" "j < 2" for k i j
    using nat_less_2[OF that(2)] nat_less_2[OF that(3)]
      eu[OF that(1)] eo[OF that(1)] ep[OF that(1)] ey[OF that(1)]
    by (auto simp: slice_def mat_mul_2 c1 c2 c3 c4)
  have "\<exists>c. cmod c = 1 \<and> (\<forall>i<2. \<forall>j<2. slice MU k i j
              = c * mat_mul 2 (slice MZo k) (mat_mul 2 (slice MY k) (slice MZp k)) i j)"
    if "k < B" for k
    using eq[OF that] by (intro exI[of _ 1]) simp
  then show ?thesis using mu mo mp my eq by blast
qed

theorem U_decomposition_witness:
  "\<exists>u rz ry phi theta omega.
       U_init [0] 1 = Inr u \<and> RZ [0] 1 = Inr rz \<and> RY [0] 1 = Inr ry
     \<and> index_row 0 (Tensor [3, 1] (\<lambda>idx. 0)) = Inr phi
     \<and> index_row 1 (Tensor [3, 1] (\<lambda>idx. 0)) = Inr theta
     \<and> index_row 2 (Tensor [3, 1] (\<lambda>idx. 0)) = Inr omega
     \<and> (\<exists>MU MZo MY MZp. U_matrices u (Tensor [3, 1] (\<lambda>idx. 0)) = Inr MU
      \<and> RotationGate_matrices rz omega = Inr MZo
      \<and> RotationGate_matrices ry theta = Inr MY
      \<and> RotationGate_matrices rz phi = Inr MZp
      \<and> (\<forall>k<1.
           (\<forall>i<2. \<forall>j<2. slice MU k i j
              = mat_mul 2 (slice MZo k) (mat_mul 2 (slice MY k) (slice MZp k)) i j)
         \<and> (\<exists>c. cmod c = 1 \<and> (\<forall>i<2. \<forall>j<2. slice MU k i j
              = c * mat_mul 2 (slice MZo k) (mat_mul 2 (slice MY k) (slice MZp k)) i j))))"
proof -
  let ?T = "Tensor [3, 1] (\<lambda>idx. 0) :: real tensor"
  obtain u where u: "U_init [0] 1 = Inr u"
    by (simp add: U_init_def tensor_defs mat2_def)
  obtain rz where rz: "RZ [0] 1 = Inr rz"
    by (simp add: RZ_def RotationGate_init_def OPERATIONS_DICT_def)
  obtain ry where ry: "RY [0] 1 = Inr ry"
    by (simp add: RY_def RotationGate_init_def OPERATIONS_DICT_def)
  obtain phi where phi: "index_row 0 ?T = Inr phi" by (simp add: index_row_def ndim_def)
  obtain theta where theta: "index_row 1 ?T = Inr theta" by (simp add: index_row_def ndim_def)
  obtain omega where omega: "index_row 2 ?T = Inr omega" by (simp add: index_row_def ndim_def)
  have sh: "shape ?T = [3, 1]" by simp
  show ?thesis
    apply (rule exI[of _ u], rule exI[of _ rz], rule exI[of _ ry])
    apply (rule exI[of _ phi], rule exI[of _ theta], rule exI[of _ omega])
    apply (intro conjI u rz ry phi theta omega)
    apply (rule U_decomposition[OF sh phi theta omega u rz ry])
    done
qed

section \<open>The shape check of the U gate\<close>

lemma U_promote:
  assumes "shape thetas = [n0]"
  shows "\<exists>p. unsqueeze 1 thetas = Inr p \<and> shape p = [n0, 1]
     \<and> U_matrices self thetas = U_matrices self p"
proof -
  obtain f where t: "thetas = Tensor [n0] f" using assms by (cases thetas) auto
  define p where "p = Tensor [n0, 1] (\<lambda>idx. f (take 1 idx @ drop (Suc 1) idx))"
  have u: "unsqueeze 1 thetas = Inr p" by (simp add: t p_def unsqueeze_def ndim_def)
  have a: "(if ndim thetas = 1 then unsqueeze 1 thetas else Inr thetas) = Inr p"
    using u by (simp add: ndim_def assms)
  have b: "(if ndim p = 1 then unsqueeze 1 p else Inr p) = Inr p"
    by (simp add: p_def ndim_def)
  have "U_matrices self thetas = U_matrices self p"
    unfolding U_matrices_def a b ..
  then show ?thesis using u by (simp add: p_def)
qed

lemma U_assertion:
  assumes "shape thetas = [n0, B]" "n0 \<noteq> 3"
  shows "U_matrices self thetas = Inl AssertionError"
  using assms by (simp add: U_matrices_def then_e_def size_t_def ndim_def)

lemma U_matrices_shape:
  assumes "U_init qs n = Inr self" "shape thetas = [3, B]"
  shows "\<exists>M. U_matrices self thetas = Inr M \<and> shape M = [2, 2, B]"
proof -
  obtain f where t: "thetas = Tensor [3, B] f" using assms(2) by (cases thetas) auto
  show ?thesis using U_matrices_value[OF assms(1), of B f] unfolding t by blast
qed

text \<open>
  Outside the parameter tensors of rank 1 and 2 the call fails in other ways: a 0-d tensor
  has no first axis, and on a tensor of rank 3 the three repeat counts of \<open>repeat\<close> are
  fewer than the axes of the tensor they are applied to.
\<close>

lemma U_rank_0:
  assumes "shape thetas = []"
  shows "U_matrices self thetas = Inl IndexError"
  using assms by (simp add: U_matrices_def then_e_def size_t_def ndim_def)

lemma U_rank_3:
  assumes "shape thetas = [3, B, C]"
  shows "U_matrices self thetas = Inl RuntimeError"
proof -
  obtain f where t: "thetas = Tensor [3, B, C] f" using assms by (cases thetas) auto
  show ?thesis
    by (simp add: t U_matrices_def tensor_defs)
qed

text \<open>
  C7. On a parameter tensor of rank 1 or 2 whose first axis has size \<open>n0\<close>,
  \<open>U.matrices\<close> fails, with the AssertionError of its \<open>assert\<close>, exactly when
  \<open>n0\<close> is not 3; a rank-1 tensor is first promoted by \<open>unsqueeze(1)\<close> to the
  shape \<open>(n0, 1)\<close>, so that a rank-1 input of length 3 gives a batch of shape
  \<open>(2, 2, 1)\<close>, and an input of shape \<open>(3, B)\<close> a batch of shape \<open>(2, 2, B)\<close>.
\<close>

theorem U_matrices_first_axis:
  assumes "U_init qs n = Inr self"
    and "shape thetas = [n0] \<or> shape thetas = [n0, B]"
  shows "(n0 \<noteq> 3 \<longrightarrow> U_matrices self thetas = Inl AssertionError)
       \<and> (n0 = 3 \<longrightarrow> (\<exists>M. U_matrices self thetas = Inr M
              \<and> shape M = [2, 2, if ndim thetas = 1 then 1 else B]))
       \<and> (ndim thetas = 1 \<longrightarrow> (\<exists>p. unsqueeze 1 thetas = Inr p \<and> shape p = [n0, 1]
              \<and> U_matrices self thetas = U_matrices self p))"
  using assms(2)
proof
  assume s: "shape thetas = [n0]"
  from U_promote[OF s, of self] obtain p where p: "unsqueeze 1 thetas = Inr p"
    "shape p = [n0, 1]" "U_matrices self thetas = U_matrices self p" by blast
  have n: "ndim thetas = 1" by (simp add: ndim_def s)
  show ?thesis
    using p U_assertion[OF p(2), of self] U_matrices_shape[OF assms(1), of p 1]
    by (auto simp: n)
next
  assume s: "shape thetas = [n0, B]"
  have n: "ndim thetas = 2" by (simp add: ndim_def s)
  show ?thesis
    using U_assertion[OF s, of self] U_matrices_shape[OF assms(1), of thetas B] s
    by (auto simp: n)
qed

theorem U_matrices_first_axis_witness:
  "\<exists>u M. U_init [0] 1 = Inr u
     \<and> U_matrices u (Tensor [2, 5] (\<lambda>idx. 0)) = Inl AssertionError
     \<and> U_matrices u (Tensor [3] (\<lambda>idx. 0)) = Inr M \<and> shape M = [2, 2, 1]"
proof -
  obtain u where u: "U_init [0] 1 = Inr u"
    by (simp add: U_init_def tensor_defs mat2_def)
  have "shape (Tensor [2, 5] (\<lambda>idx. 0::real)) = [2] \<or> shape (Tensor [2, 5] (\<lambda>idx. 0::real)) = [2, 5]"
    by simp
  from U_matrices_first_axis[OF u this]
  have a: "U_matrices u (Tensor [2, 5] (\<lambda>idx. 0)) = Inl AssertionError" by simp
  have "shape (Tensor [3] (\<lambda>idx. 0::real)) = [3] \<or> shape (Tensor [3] (\<lambda>idx. 0::real)) = [3, 1]"
    by simp
  from U_matrices_first_axis[OF u this]
  obtain M where "U_matrices u (Tensor [3] (\<lambda>idx. 0)) = Inr M" "shape M = [2, 2, 1]"
    by (auto simp: ndim_def)
  then show ?thesis using u a by blast
qed

section \<open>The controlled phase matrices\<close>

lemma CPHASE_init_registered:
  "CPHASE_init qs n s = (self, s') \<Longrightarrow> registered self s' \<and> (\<forall>a < length s. s' ! a = s ! a)"
  by (auto simp: CPHASE_init_def alloc_def registered_def eye_def ndim_def nth_append)

lemma CPHASE_matrices_rank1:
  assumes "registered self s"
  shows "\<exists>mat s'. CPHASE_matrices self (Tensor [B] f) s = Inr (mat, s')
     \<and> addr mat = length s \<and> length s' = Suc (length s)
     \<and> (\<forall>a < length s. s' ! a = s ! a)
     \<and> (\<exists>M. load s' mat = Inr M \<and> shape M = [4, 4, B]
          \<and> (\<forall>i<4. \<forall>j<4. \<forall>k<B. elem M [i, j, k] =
                (if i = 3 \<and> j = 3 then exp (\<i> * complex_of_real (f [k]))
                 else if i = j then 1 else 0)))"
  using assms
  by (simp add: registered_def CPHASE_matrices_def tensor_defs store_defs eye_def nth_append)

lemma CPHASE_matrices_value:
  assumes "registered self s" and "shape thetas = [B] \<or> shape thetas = [1, B]"
  shows "\<exists>mat s'. CPHASE_matrices self thetas s = Inr (mat, s')
     \<and> addr mat = length s \<and> length s' = Suc (length s)
     \<and> (\<forall>a < length s. s' ! a = s ! a)
     \<and> (\<exists>M. load s' mat = Inr M \<and> shape M = [4, 4, B]
          \<and> (\<forall>i<4. \<forall>j<4. \<forall>k<B. elem M [i, j, k] =
                (if i = 3 \<and> j = 3 then exp (\<i> * complex_of_real (angle thetas k))
                 else if i = j then 1 else 0)))"
  using assms(2)
proof
  assume s: "shape thetas = [B]"
  then obtain f where t: "thetas = Tensor [B] f" by (cases thetas) auto
  have a: "angle (Tensor [B] f) k = f [k]" for k by (simp add: angle_def ndim_def)
  show ?thesis using CPHASE_matrices_rank1[OF assms(1), of B f] unfolding t a .
next
  assume s: "shape thetas = [1, B]"
  obtain f where sq: "squeeze 0 thetas = Inr (Tensor [B] f)"
    and f: "\<And>k. f [k] = elem thetas [0, k]"
    using squeeze_row[OF s] by blast
  have a: "angle thetas k = f [k]" for k by (simp add: angle_def ndim_def s f)
  have p: "(if ndim thetas = 2 then squeeze 0 thetas else Inr thetas) = Inr (Tensor [B] f)"
    by (simp add: ndim_def s sq)
  have q: "(if ndim (Tensor [B] f) = 2 then squeeze 0 (Tensor [B] f) else Inr (Tensor [B] f))
      = Inr (Tensor [B] f)"
    by (simp add: ndim_def)
  have "CPHASE_matrices self thetas s = CPHASE_matrices self (Tensor [B] f) s"
    unfolding CPHASE_matrices_def p q ..
  then show ?thesis using CPHASE_matrices_rank1[OF assms(1), of B f] unfolding a by simp
qed

text \<open>
  C5. For an angle batch of shape \<open>(B)\<close> or \<open>(1, B)\<close>, \<open>CPHASE.matrices\<close> returns
  a tensor of shape \<open>(4, 4, B)\<close> whose batch slice \<open>k\<close> is diagonal with the diagonal
  \<open>1, 1, 1, exp(i * theta_k)\<close>: only the entry (3, 3) differs from the identity.
\<close>

theorem CPHASE_diagonal:
  assumes "registered self s" and "shape thetas = [B] \<or> shape thetas = [1, B]"
  shows "\<exists>mat s' M. CPHASE_matrices self thetas s = Inr (mat, s')
     \<and> load s' mat = Inr M \<and> shape M = [4, 4, B]
     \<and> (\<forall>k<B. \<forall>i<4. \<forall>j<4. slice M k i j =
           (if i = j then (if i = 3 then exp (\<i> * complex_of_real (angle thetas k)) else 1)
            else 0))"
proof -
  from CPHASE_matrices_value[OF assms]
  obtain mat s' M where m: "CPHASE_matrices self thetas s = Inr (mat, s')"
    "load s' mat = Inr M" "shape M = [4, 4, B]"
    and e: "\<And>i j k. i < 4 \<Longrightarrow> j < 4 \<Longrightarrow> k < B \<Longrightarrow> elem M [i, j, k] =
                (if i = 3 \<and> j = 3 then exp (\<i> * complex_of_real (angle thetas k))
                 else if i = j then 1 else 0)"
    by blast
  have "\<forall>k<B. \<forall>i<4. \<forall>j<4. slice M k i j =
           (if i = j then (if i = 3 then exp (\<i> * complex_of_real (angle thetas k)) else 1)
            else 0)"
    by (simp add: slice_def e)
  then show ?thesis using m by blast
qed

theorem CPHASE_diagonal_witness:
  "\<exists>self s mat s' M. CPHASE_init [0, 1] 2 [] = (self, s)
     \<and> CPHASE_matrices self (Tensor [2] (\<lambda>idx. 0)) s = Inr (mat, s')
     \<and> load s' mat = Inr M \<and> shape M = [4, 4, 2]
     \<and> slice M 1 3 3 = 1 \<and> slice M 1 2 2 = 1 \<and> slice M 1 2 3 = 0"
proof -
  obtain self s where i: "CPHASE_init [0, 1] 2 [] = (self, s)" by (cases "CPHASE_init [0, 1] 2 []")
  have r: "registered self s" using CPHASE_init_registered[OF i] by simp
  have sh: "shape (Tensor [2] (\<lambda>idx. 0::real)) = [2] \<or> shape (Tensor [2] (\<lambda>idx. 0::real)) = [1, 2]"
    by simp
  from CPHASE_diagonal[OF r sh]
  obtain mat s' M where m: "CPHASE_matrices self (Tensor [2] (\<lambda>idx. 0)) s = Inr (mat, s')"
    "load s' mat = Inr M" "shape M = [4, 4, 2]"
    and e: "\<forall>k<2. \<forall>i<4. \<forall>j<4. slice M k i j =
           (if i = j then (if i = 3 then exp (\<i> * complex_of_real (angle (Tensor [2] (\<lambda>idx. 0)) k)) else 1)
            else 0)"
    by blast
  have x: "slice M 1 3 3 = 1" "slice M 1 2 2 = 1" "slice M 1 2 3 = 0"
    using e by (simp_all add: angle_def ndim_def)
  show ?thesis
    by (intro exI conjI, rule i, rule m(1), rule m(2), rule m(3), rule x(1), rule x(2), rule x(3))
qed


lemma registered_frame:
  assumes "registered self s" "length s \<le> length s'" "\<forall>a < length s. s' ! a = s ! a"
  shows "registered self s'"
  using assms by (auto simp: registered_def)

text \<open>
  C10. \<open>CPHASE.matrices\<close> changes no storage that existed before the call: its
  in-place assignment writes into the storage that \<open>repeat\<close> allocated in the same
  call. So the buffer \<open>imat\<close> is the 4x4 identity after every call, the tensors
  returned by two successive calls live at two new, different addresses, and after the
  second call both still hold the matrices of their own angles.
\<close>

theorem CPHASE_no_shared_mutation:
  assumes "registered self s"
    and "shape thetas1 = [B1] \<or> shape thetas1 = [1, B1]"
    and "shape thetas2 = [B2] \<or> shape thetas2 = [1, B2]"
  shows "\<exists>m1 s1 m2 s2 M1 M2.
       CPHASE_matrices self thetas1 s = Inr (m1, s1)
     \<and> CPHASE_matrices self thetas2 s1 = Inr (m2, s2)
     \<and> (\<forall>a < length s. s1 ! a = s ! a) \<and> (\<forall>a < length s1. s2 ! a = s1 ! a)
     \<and> registered self s1 \<and> registered self s2
     \<and> addr m1 = length s \<and> addr m2 = length s1
     \<and> addr m1 \<noteq> addr (cphase_gate.imat self) \<and> addr m2 \<noteq> addr (cphase_gate.imat self)
     \<and> addr m2 \<noteq> addr m1
     \<and> load s1 m1 = Inr M1 \<and> load s2 m1 = Inr M1 \<and> load s2 m2 = Inr M2
     \<and> shape M1 = [4, 4, B1] \<and> shape M2 = [4, 4, B2]
     \<and> (\<forall>i<4. \<forall>j<4. \<forall>k<B1. elem M1 [i, j, k] =
            (if i = 3 \<and> j = 3 then exp (\<i> * complex_of_real (angle thetas1 k))
             else if i = j then 1 else 0))
     \<and> (\<forall>i<4. \<forall>j<4. \<forall>k<B2. elem M2 [i, j, k] =
            (if i = 3 \<and> j = 3 then exp (\<i> * complex_of_real (angle thetas2 k))
             else if i = j then 1 else 0))"
proof -
  from CPHASE_matrices_value[OF assms(1,2)]
  obtain m1 s1 M1 where c1: "CPHASE_matrices self thetas1 s = Inr (m1, s1)"
    and a1: "addr m1 = length s" and l1: "length s1 = Suc (length s)"
    and f1: "\<forall>a < length s. s1 ! a = s ! a"
    and M1: "load s1 m1 = Inr M1" "shape M1 = [4, 4, B1]"
    and e1: "\<forall>i<4. \<forall>j<4. \<forall>k<B1. elem M1 [i, j, k] =
            (if i = 3 \<and> j = 3 then exp (\<i> * complex_of_real (angle thetas1 k))
             else if i = j then 1 else 0)"
    by (elim exE conjE) (rule that)
  have r1: "registered self s1"
    using registered_frame[OF assms(1) _ f1] l1 by simp
  from CPHASE_matrices_value[OF r1 assms(3)]
  obtain m2 s2 M2 where c2: "CPHASE_matrices self thetas2 s1 = Inr (m2, s2)"
    and a2: "addr m2 = length s1" and l2: "length s2 = Suc (length s1)"
    and f2: "\<forall>a < length s1. s2 ! a = s1 ! a"
    and M2: "load s2 m2 = Inr M2" "shape M2 = [4, 4, B2]"
    and e2: "\<forall>i<4. \<forall>j<4. \<forall>k<B2. elem M2 [i, j, k] =
            (if i = 3 \<and> j = 3 then exp (\<i> * complex_of_real (angle thetas2 k))
             else if i = j then 1 else 0)"
    by (elim exE conjE) (rule that)
  have r2: "registered self s2"
    using registered_frame[OF r1 _ f2] l2 by simp
  have i: "addr (cphase_gate.imat self) < length s"
    using assms(1) by (simp add: registered_def)
  have n1: "addr m1 \<noteq> addr (cphase_gate.imat self)" using i a1 by simp
  have n2: "addr m2 \<noteq> addr (cphase_gate.imat self)" using i a2 l1 by simp
  have n3: "addr m2 \<noteq> addr m1" using a1 a2 l1 by simp
  have "load s2 m1 = load s1 m1"
    using f2 a1 l1 l2 by (simp add: load_def)
  then have M1': "load s2 m1 = Inr M1" using M1(1) by simp
  show ?thesis
    by (intro exI conjI, rule c1, rule c2, rule f1, rule f2, rule r1, rule r2, rule a1, rule a2,
        rule n1, rule n2, rule n3, rule M1(1), rule M1', rule M2(1), rule M1(2), rule M2(2),
        rule e1, rule e2)
qed

theorem CPHASE_no_shared_mutation_witness:
  "\<exists>self s m1 s1 m2 s2 M1 M2. CPHASE_init [0, 1] 2 [] = (self, s)
     \<and> CPHASE_matrices self (Tensor [1] (\<lambda>idx. 0)) s = Inr (m1, s1)
     \<and> CPHASE_matrices self (Tensor [1, 2] (\<lambda>idx. pi)) s1 = Inr (m2, s2)
     \<and> s1 ! addr (cphase_gate.imat self) = eye 4
     \<and> s2 ! addr (cphase_gate.imat self) = eye 4
     \<and> load s2 m1 = Inr M1 \<and> load s2 m2 = Inr M2
     \<and> elem M1 [3, 3, 0] = 1 \<and> elem M2 [3, 3, 1] = - 1"
proof -
  let ?t1 = "Tensor [1] (\<lambda>idx. 0) :: real tensor"
  let ?t2 = "Tensor [1, 2] (\<lambda>idx. pi) :: real tensor"
  obtain self s where i: "CPHASE_init [0, 1] 2 [] = (self, s)" by (cases "CPHASE_init [0, 1] 2 []")
  have r: "registered self s" using CPHASE_init_registered[OF i] by simp
  have sh1: "shape ?t1 = [1] \<or> shape ?t1 = [1, 1]" by simp
  have sh2: "shape ?t2 = [2] \<or> shape ?t2 = [1, 2]" by simp
  from CPHASE_no_shared_mutation[OF r sh1 sh2]
  obtain m1 s1 m2 s2 M1 M2 where
    c: "CPHASE_matrices self ?t1 s = Inr (m1, s1)" "CPHASE_matrices self ?t2 s1 = Inr (m2, s2)"
    and r12: "registered self s1" "registered self s2"
    and l: "load s2 m1 = Inr M1" "load s2 m2 = Inr M2"
    and e1: "\<forall>i<4. \<forall>j<4. \<forall>k<1. elem M1 [i, j, k] =
            (if i = 3 \<and> j = 3 then exp (\<i> * complex_of_real (angle ?t1 k))
             else if i = j then 1 else 0)"
    and e2: "\<forall>i<4. \<forall>j<4. \<forall>k<2. elem M2 [i, j, k] =
            (if i = 3 \<and> j = 3 then exp (\<i> * complex_of_real (angle ?t2 k))
             else if i = j then 1 else 0)"
    by (elim exE conjE) (rule that)
  have x1: "elem M1 [3, 3, 0] = 1" using e1 by (simp add: angle_def ndim_def)
  have x2: "elem M2 [3, 3, 1] = - 1" using e2 by (simp add: angle_def ndim_def)
  have y1: "s1 ! addr (cphase_gate.imat self) = eye 4" using r12(1) by (simp add: registered_def)
  have y2: "s2 ! addr (cphase_gate.imat self) = eye 4" using r12(2) by (simp add: registered_def)
  show ?thesis
    by (intro exI conjI, rule i, rule c(1), rule c(2), rule y1, rule y2, rule l(1), rule l(2),
        rule x1, rule x2)
qed

section \<open>Unitarity\<close>

lemma scaled_cis_norm:
  "(complex_of_real x * cis u) * cnj (complex_of_real x * cis u) = complex_of_real (x\<^sup>2)"
proof -
  have "cmod (complex_of_real x * cis u) = \<bar>x\<bar>" by (simp add: norm_mult)
  then show ?thesis
    using complex_norm_square[of "complex_of_real x * cis u"] by simp
qed

lemma cs_sq:
  "(complex_of_real (cos t))\<^sup>2 + (complex_of_real (sin t))\<^sup>2 = 1"
  "(complex_of_real (sin t))\<^sup>2 + (complex_of_real (cos t))\<^sup>2 = 1"
proof -
  have "complex_of_real ((cos t)\<^sup>2 + (sin t)\<^sup>2) = 1" by simp
  then show "(complex_of_real (cos t))\<^sup>2 + (complex_of_real (sin t))\<^sup>2 = 1"
    by (simp only: of_real_add of_real_power)
  then show "(complex_of_real (sin t))\<^sup>2 + (complex_of_real (cos t))\<^sup>2 = 1"
    by (simp only: add.commute)
qed

lemma unit_U:
  fixes t p m :: real
  defines "a \<equiv> complex_of_real (cos t) * cis (- p)" and "b \<equiv> - complex_of_real (sin t) * cis m"
    and "c \<equiv> complex_of_real (sin t) * cis (- m)" and "d \<equiv> complex_of_real (cos t) * cis p"
  shows "a * cnj a + b * cnj b = 1" "a * cnj c + b * cnj d = 0"
    "c * cnj a + d * cnj b = 0" "c * cnj c + d * cnj d = 1"
proof -
  have "b = complex_of_real (- sin t) * cis m" by (simp add: b_def)
  then have bb: "b * cnj b = complex_of_real ((sin t)\<^sup>2)"
    using scaled_cis_norm[of "- sin t" m] by simp
  have "a * cnj a = complex_of_real ((cos t)\<^sup>2)" "c * cnj c = complex_of_real ((sin t)\<^sup>2)"
    "d * cnj d = complex_of_real ((cos t)\<^sup>2)"
    unfolding a_def c_def d_def by (rule scaled_cis_norm)+
  then show "a * cnj a + b * cnj b = 1" "c * cnj c + d * cnj d = 1"
    using bb by (simp_all add: cs_sq)
  show "a * cnj c + b * cnj d = 0" "c * cnj a + d * cnj b = 0"
    unfolding a_def b_def c_def d_def
    by (simp_all add: complex_eq_iff algebra_simps)
qed

lemma unit_X:
  fixes t :: real
  defines "a \<equiv> complex_of_real (cos t)" and "b \<equiv> - \<i> * complex_of_real (sin t)"
  shows "a * cnj a + b * cnj b = 1" "a * cnj b + b * cnj a = 0" "b * cnj a + a * cnj b = 0"
    "b * cnj b + a * cnj a = 1"
  unfolding a_def b_def
  by (simp_all add: complex_eq_iff algebra_simps)

lemma unit_Y:
  fixes t :: real
  defines "a \<equiv> complex_of_real (cos t)" and "b \<equiv> complex_of_real (sin t)"
  shows "a * cnj a + (- b) * cnj (- b) = 1" "a * cnj b + (- b) * cnj a = 0"
    "b * cnj a + a * cnj (- b) = 0" "b * cnj b + a * cnj a = 1"
  unfolding a_def b_def
  by (simp_all add: complex_eq_iff algebra_simps)

lemma unit_Z:
  fixes t :: real
  shows "cis (- t) * cnj (cis (- t)) = 1" "cis t * cnj (cis t) = 1"
  by (simp_all add: complex_eq_iff algebra_simps)

lemma unit_P:
  fixes t :: real
  shows "exp (\<i> * complex_of_real t) * cnj (exp (\<i> * complex_of_real t)) = 1"
  by (simp add: complex_eq_iff Re_exp Im_exp algebra_simps)

lemma unitary_2I:
  assumes "A 0 0 * cnj (A 0 0) + A 0 1 * cnj (A 0 1) = 1"
    and "A 0 0 * cnj (A 1 0) + A 0 1 * cnj (A 1 1) = 0"
    and "A 1 0 * cnj (A 0 0) + A 1 1 * cnj (A 0 1) = 0"
    and "A 1 0 * cnj (A 1 0) + A 1 1 * cnj (A 1 1) = 1"
  shows "unitary 2 A"
  using assms
  by (auto simp: unitary_def is_identity_def mat_mul_2 dagger_def dest!: nat_less_2)

lemma unitary_diag4:
  assumes "\<forall>i<4. \<forall>j<4. A i j = (if i = j then D i else 0)"
    and "\<forall>i<4. D i * cnj (D i) = 1"
  shows "unitary 4 A"
  using assms
  by (auto simp: unitary_def is_identity_def mat_mul_4 dagger_def dest!: nat_less_4)

lemma RX_unitary:
  assumes "RX qs n = Inr self" "shape thetas = [B] \<or> shape thetas = [1, B]"
  shows "\<exists>M. RotationGate_matrices self thetas = Inr M \<and> (\<forall>k<B. unitary 2 (slice M k))"
proof -
  from RX_entries[OF assms] obtain M where m: "RotationGate_matrices self thetas = Inr M"
    and e: "\<And>k. k < B \<Longrightarrow>
        elem M [0, 0, k] = complex_of_real (cos (angle thetas k / 2))
      \<and> elem M [0, 1, k] = - \<i> * complex_of_real (sin (angle thetas k / 2))
      \<and> elem M [1, 0, k] = - \<i> * complex_of_real (sin (angle thetas k / 2))
      \<and> elem M [1, 1, k] = complex_of_real (cos (angle thetas k / 2))"
    by blast
  have "unitary 2 (slice M k)" if "k < B" for k
    by (rule unitary_2I) (simp_all only: slice_def e[OF that] unit_X)
  then show ?thesis using m by blast
qed

lemma RY_unitary:
  assumes "RY qs n = Inr self" "shape thetas = [B] \<or> shape thetas = [1, B]"
  shows "\<exists>M. RotationGate_matrices self thetas = Inr M \<and> (\<forall>k<B. unitary 2 (slice M k))"
proof -
  from RY_entries[OF assms] obtain M where m: "RotationGate_matrices self thetas = Inr M"
    and e: "\<And>k. k < B \<Longrightarrow>
        elem M [0, 0, k] = complex_of_real (cos (angle thetas k / 2))
      \<and> elem M [0, 1, k] = - complex_of_real (sin (angle thetas k / 2))
      \<and> elem M [1, 0, k] = complex_of_real (sin (angle thetas k / 2))
      \<and> elem M [1, 1, k] = complex_of_real (cos (angle thetas k / 2))"
    by blast
  have "unitary 2 (slice M k)" if "k < B" for k
    by (rule unitary_2I) (simp_all only: slice_def e[OF that] unit_Y)
  then show ?thesis using m by blast
qed

lemma RZ_unitary:
  assumes "RZ qs n = Inr self" "shape thetas = [B] \<or> shape thetas = [1, B]"
  shows "\<exists>M. RotationGate_matrices self thetas = Inr M \<and> (\<forall>k<B. unitary 2 (slice M k))"
proof -
  from RZ_entries[OF assms] obtain M where m: "RotationGate_matrices self thetas = Inr M"
    and e: "\<And>k. k < B \<Longrightarrow>
        elem M [0, 0, k] = cis (- (angle thetas k / 2))
      \<and> elem M [0, 1, k] = 0
      \<and> elem M [1, 0, k] = 0
      \<and> elem M [1, 1, k] = cis (angle thetas k / 2)"
    by blast
  have "unitary 2 (slice M k)" if "k < B" for k
    by (rule unitary_2I) (simp_all only: slice_def e[OF that], simp_all add: unit_Z)
  then show ?thesis using m by blast
qed

lemma U_unitary:
  assumes "U_init qs n = Inr self" "shape params = [3, B]"
  shows "\<exists>M. U_matrices self params = Inr M \<and> (\<forall>k<B. unitary 2 (slice M k))"
proof -
  obtain f where t: "params = Tensor [3, B] f" using assms(2) by (cases params) auto
  from U_matrices_value[OF assms(1), of B f]
  obtain M where m: "U_matrices self params = Inr M"
    and e: "\<And>k. k < B \<Longrightarrow>
         elem M [0, 0, k] =
           complex_of_real (cos (f [1, k] / 2)) * cis (- ((f [0, k] + f [2, k]) / 2))
       \<and> elem M [0, 1, k] =
           - complex_of_real (sin (f [1, k] / 2)) * cis ((f [0, k] - f [2, k]) / 2)
       \<and> elem M [1, 0, k] =
           complex_of_real (sin (f [1, k] / 2)) * cis (- ((f [0, k] - f [2, k]) / 2))
       \<and> elem M [1, 1, k] =
           complex_of_real (cos (f [1, k] / 2)) * cis ((f [0, k] + f [2, k]) / 2)"
    unfolding t by blast
  have "unitary 2 (slice M k)" if "k < B" for k
    by (rule unitary_2I) (simp_all only: slice_def e[OF that] unit_U)
  then show ?thesis using m by blast
qed

lemma CPHASE_unitary:
  assumes "registered self s" "shape thetas = [B] \<or> shape thetas = [1, B]"
  shows "\<exists>mat s' M. CPHASE_matrices self thetas s = Inr (mat, s') \<and> load s' mat = Inr M
      \<and> (\<forall>k<B. unitary 4 (slice M k))"
proof -
  from CPHASE_matrices_value[OF assms]
  obtain mat s' M where m: "CPHASE_matrices self thetas s = Inr (mat, s')" "load s' mat = Inr M"
    and e: "\<forall>i<4. \<forall>j<4. \<forall>k<B. elem M [i, j, k] =
                (if i = 3 \<and> j = 3 then exp (\<i> * complex_of_real (angle thetas k))
                 else if i = j then 1 else 0)"
    by (elim exE conjE) (rule that)
  have "unitary 4 (slice M k)" if "k < B" for k
  proof (rule unitary_diag4[where D = "\<lambda>i. if i = 3 then exp (\<i> * complex_of_real (angle thetas k)) else 1"])
    show "\<forall>i<4. \<forall>j<4. slice M k i j =
        (if i = j then (if i = 3 then exp (\<i> * complex_of_real (angle thetas k)) else 1) else 0)"
      using e that by (simp add: slice_def)
    show "\<forall>i<4. (if i = 3 then exp (\<i> * complex_of_real (angle thetas k)) else 1)
        * cnj (if i = 3 then exp (\<i> * complex_of_real (angle thetas k)) else 1) = 1"
      by (simp add: unit_P)
  qed
  then show ?thesis using m by blast
qed


text \<open>
  C3. For a rotation gate built on a Pauli matrix (\<open>X\<close>, \<open>Y\<close> or \<open>Z\<close>), for the
  \<open>U\<close> gate and for the \<open>CPHASE\<close> gate, and for every real parameter batch of the
  shape the gate takes, each batch slice \<open>M\<close> of the matrices returned satisfies
  \<open>M * M\<^sup>\<dagger> = I\<close>, exactly.
\<close>

theorem gate_matrices_unitary:
  assumes "g \<in> {''X'', ''Y'', ''Z''}" and "RotationGate_init g qs n = Inr r"
    and "U_init qs n = Inr u" and "registered c s"
    and "shape thetas = [B] \<or> shape thetas = [1, B]" and "shape params = [3, B']"
  shows "(\<exists>M. RotationGate_matrices r thetas = Inr M \<and> (\<forall>k<B. unitary 2 (slice M k)))
       \<and> (\<exists>M. U_matrices u params = Inr M \<and> (\<forall>k<B'. unitary 2 (slice M k)))
       \<and> (\<exists>mat s' M. CPHASE_matrices c thetas s = Inr (mat, s') \<and> load s' mat = Inr M
              \<and> (\<forall>k<B. unitary 4 (slice M k)))"
proof (intro conjI)
  show "\<exists>M. RotationGate_matrices r thetas = Inr M \<and> (\<forall>k<B. unitary 2 (slice M k))"
    using assms(1,2) RX_unitary[of qs n r thetas B, OF _ assms(5)]
      RY_unitary[of qs n r thetas B, OF _ assms(5)] RZ_unitary[of qs n r thetas B, OF _ assms(5)]
    by (auto simp: RX_def RY_def RZ_def)
  show "\<exists>M. U_matrices u params = Inr M \<and> (\<forall>k<B'. unitary 2 (slice M k))"
    by (rule U_unitary[OF assms(3,6)])
  show "\<exists>mat s' M. CPHASE_matrices c thetas s = Inr (mat, s') \<and> load s' mat = Inr M
              \<and> (\<forall>k<B. unitary 4 (slice M k))"
    by (rule CPHASE_unitary[OF assms(4,5)])
qed

theorem gate_matrices_unitary_witness:
  "\<exists>r u c s M1 M2 mat s' M3. RotationGate_init ''Y'' [0] 2 = Inr r \<and> U_init [0] 2 = Inr u
     \<and> CPHASE_init [0, 1] 2 [] = (c, s)
     \<and> RotationGate_matrices r (Tensor [1, 2] (\<lambda>idx. 1)) = Inr M1
     \<and> unitary 2 (slice M1 1)
     \<and> U_matrices u (Tensor [3, 1] (\<lambda>idx. 1)) = Inr M2 \<and> unitary 2 (slice M2 0)
     \<and> CPHASE_matrices c (Tensor [1, 2] (\<lambda>idx. 1)) s = Inr (mat, s') \<and> load s' mat = Inr M3
     \<and> unitary 4 (slice M3 1)"
proof -
  let ?t = "Tensor [1, 2] (\<lambda>idx. 1) :: real tensor"
  let ?p = "Tensor [3, 1] (\<lambda>idx. 1) :: real tensor"
  obtain r where r: "RotationGate_init ''Y'' [0] 2 = Inr r"
    by (simp add: RotationGate_init_def OPERATIONS_DICT_def)
  obtain u where u: "U_init [0] 2 = Inr u"
    by (simp add: U_init_def tensor_defs mat2_def)
  obtain c s where i: "CPHASE_init [0, 1] 2 [] = (c, s)" by (cases "CPHASE_init [0, 1] 2 []")
  have reg: "registered c s" using CPHASE_init_registered[OF i] by simp
  have g: "''Y'' \<in> {''X'', ''Y'', ''Z''}" by simp
  have sh: "shape ?t = [2] \<or> shape ?t = [1, 2]" by simp
  have sp: "shape ?p = [3, 1]" by simp
  from gate_matrices_unitary[OF g r u reg sh sp]
  obtain M1 M2 mat s' M3 where m: "RotationGate_matrices r ?t = Inr M1"
      "U_matrices u ?p = Inr M2" "CPHASE_matrices c ?t s = Inr (mat, s')" "load s' mat = Inr M3"
    and e: "\<forall>k<2. unitary 2 (slice M1 k)" "\<forall>k<1. unitary 2 (slice M2 k)"
      "\<forall>k<2. unitary 4 (slice M3 k)"
    by (elim exE conjE) (rule that)
  have x: "unitary 2 (slice M1 1)" "unitary 2 (slice M2 0)" "unitary 4 (slice M3 1)"
    using e by simp_all
  show ?thesis
    by (intro exI conjI, rule r, rule u, rule i, rule m(1), rule x(1), rule m(2), rule x(2),
        rule m(3), rule m(4), rule x(3))
qed

section \<open>Rotations and their inverses\<close>

lemma is_identity_2I:
  assumes "A 0 0 = 1" "A 0 1 = 0" "A 1 0 = 0" "A 1 1 = 1"
  shows "is_identity 2 A"
  using assms by (auto simp: is_identity_def dest!: nat_less_2)

lemma angle_map_t:
  "angle (map_t h thetas) k = h (angle thetas k)"
  by (simp add: angle_def map_t_def ndim_def)

lemma shape_map_t: "shape (map_t h thetas) = shape thetas"
  by (simp add: map_t_def)

lemma inv_X:
  "complex_of_real (cos t) * complex_of_real (cos t)
     - \<i> * complex_of_real (sin t) * (\<i> * complex_of_real (sin t)) = 1"
  by (simp add: complex_eq_iff)

lemma inv_Y:
  "complex_of_real (cos t) * complex_of_real (cos t)
     + complex_of_real (sin t) * complex_of_real (sin t) = 1"
  "complex_of_real (sin t) * complex_of_real (sin t)
     + complex_of_real (cos t) * complex_of_real (cos t) = 1"
  by (simp_all add: complex_eq_iff add.commute[of "sin t * sin t"])

lemma rotation_inverse_entries:
  assumes "g \<in> {''X'', ''Y'', ''Z''}" and "RotationGate_init g qs n = Inr self"
    and "shape thetas = [B] \<or> shape thetas = [1, B]"
    and "RotationGate_matrices self thetas = Inr M"
    and "RotationGate_matrices self (map_t uminus thetas) = Inr N"
    and "RotationGate_matrices self (map_t (\<lambda>x. 0) thetas) = Inr Z"
    and "k < B"
  shows "is_identity 2 (slice Z k) \<and> is_identity 2 (mat_mul 2 (slice M k) (slice N k))"
proof -
  have sn: "shape (map_t uminus thetas) = [B] \<or> shape (map_t uminus thetas) = [1, B]"
    and sz: "shape (map_t (\<lambda>x. 0) thetas) = [B] \<or> shape (map_t (\<lambda>x. 0) thetas) = [1, B]"
    using assms(3) by (simp_all add: shape_map_t)
  consider "RX qs n = Inr self" | "RY qs n = Inr self" | "RZ qs n = Inr self"
    using assms(1,2) by (auto simp: RX_def RY_def RZ_def)
  then show ?thesis
  proof cases
    case 1
    from RX_entries[OF 1 assms(3)] RX_entries[OF 1 sn] RX_entries[OF 1 sz] assms(4,5,6,7)
    show ?thesis
      by (intro conjI is_identity_2I)
         (simp_all add: slice_def mat_mul_2 angle_map_t inv_X)
  next
    case 2
    from RY_entries[OF 2 assms(3)] RY_entries[OF 2 sn] RY_entries[OF 2 sz] assms(4,5,6,7)
    show ?thesis
      by (intro conjI is_identity_2I)
         (simp_all add: slice_def mat_mul_2 angle_map_t inv_Y)
  next
    case 3
    from RZ_entries[OF 3 assms(3)] RZ_entries[OF 3 sn] RZ_entries[OF 3 sz] assms(4,5,6,7)
    show ?thesis
      by (intro conjI is_identity_2I)
         (simp_all add: slice_def mat_mul_2 angle_map_t cis_mult)
  qed
qed

lemma pauli_gate_shape:
  assumes "g \<in> {''X'', ''Y'', ''Z''}" and "RotationGate_init g qs n = Inr self"
    and "shape thetas = [B] \<or> shape thetas = [1, B]"
  shows "\<exists>M. RotationGate_matrices self thetas = Inr M \<and> shape M = [2, 2, B]"
proof -
  have "shape (the (OPERATIONS_DICT g)) = [2, 2]"
    using assms(1) by (auto simp: OPERATIONS_DICT_def mat2_def)
  then have "shape (rotation_gate.paulimat self) = [2, 2]"
    using registry_gate(1)[OF assms(2)] by simp
  moreover have "shape (rotation_gate.imat self) = [2, 2]"
    using registry_gate(2)[OF assms(2)] by (simp add: mat2_def)
  ultimately show ?thesis
    using RotationGate_matrices_value[OF assms(3)] by blast
qed

text \<open>
  C9. For \<open>RX\<close>, \<open>RY\<close> and \<open>RZ\<close>: the matrices built at angle 0 are the 2x2 identity,
  and for every angle batch the product of the matrix at \<open>theta\<close> and the matrix at
  \<open>- theta\<close> is the identity, in each batch element.
\<close>

theorem rotation_identity_and_inverse:
  assumes "g \<in> {''X'', ''Y'', ''Z''}" and "RotationGate_init g qs n = Inr self"
    and "shape thetas = [B] \<or> shape thetas = [1, B]"
  shows "\<exists>M N Z. RotationGate_matrices self thetas = Inr M
      \<and> RotationGate_matrices self (map_t uminus thetas) = Inr N
      \<and> RotationGate_matrices self (map_t (\<lambda>x. 0) thetas) = Inr Z
      \<and> (\<forall>k<B. is_identity 2 (slice Z k)
              \<and> is_identity 2 (mat_mul 2 (slice M k) (slice N k)))"
proof -
  have sn: "shape (map_t uminus thetas) = [B] \<or> shape (map_t uminus thetas) = [1, B]"
    and sz: "shape (map_t (\<lambda>x. 0) thetas) = [B] \<or> shape (map_t (\<lambda>x. 0) thetas) = [1, B]"
    using assms(3) by (simp_all add: shape_map_t)
  obtain M where m: "RotationGate_matrices self thetas = Inr M"
    using pauli_gate_shape[OF assms] by blast
  obtain N where n: "RotationGate_matrices self (map_t uminus thetas) = Inr N"
    using pauli_gate_shape[OF assms(1,2) sn] by blast
  obtain Z where z: "RotationGate_matrices self (map_t (\<lambda>x. 0) thetas) = Inr Z"
    using pauli_gate_shape[OF assms(1,2) sz] by blast
  have "\<forall>k<B. is_identity 2 (slice Z k) \<and> is_identity 2 (mat_mul 2 (slice M k) (slice N k))"
    using rotation_inverse_entries[OF assms m n z] by blast
  then show ?thesis using m n z by blast
qed

theorem rotation_identity_and_inverse_witness:
  "\<exists>self M N Z. RX [0] 1 = Inr self
      \<and> RotationGate_matrices self (Tensor [2] (\<lambda>idx. 1)) = Inr M
      \<and> RotationGate_matrices self (map_t uminus (Tensor [2] (\<lambda>idx. 1))) = Inr N
      \<and> RotationGate_matrices self (map_t (\<lambda>x. 0) (Tensor [2] (\<lambda>idx. 1 :: real))) = Inr Z
      \<and> is_identity 2 (slice Z 1) \<and> is_identity 2 (mat_mul 2 (slice M 1) (slice N 1))"
proof -
  let ?t = "Tensor [2] (\<lambda>idx. 1) :: real tensor"
  obtain self where r: "RX [0] 1 = Inr self"
    by (simp add: RX_def RotationGate_init_def OPERATIONS_DICT_def)
  have g: "''X'' \<in> {''X'', ''Y'', ''Z''}" by simp
  have sh: "shape ?t = [2] \<or> shape ?t = [1, 2]" by simp
  from rotation_identity_and_inverse[OF g r[unfolded RX_def] sh]
  obtain M N Z where m: "RotationGate_matrices self ?t = Inr M"
      "RotationGate_matrices self (map_t uminus ?t) = Inr N"
      "RotationGate_matrices self (map_t (\<lambda>x. 0) ?t) = Inr Z"
    and e: "\<forall>k<2. is_identity 2 (slice Z k)
              \<and> is_identity 2 (mat_mul 2 (slice M k) (slice N k))"
    by (elim exE conjE) (rule that)
  have x: "is_identity 2 (slice Z 1)" "is_identity 2 (mat_mul 2 (slice M 1) (slice N 1))"
    using e by simp_all
  show ?thesis
    by (intro exI conjI, rule r, rule m(1), rule m(2), rule m(3), rule x(1), rule x(2))
qed

section \<open>Controlled rotations on a fixed control qubit\<close>

lemma upt_2: "[0..<2] = [0, 1]"
  by (simp add: eval_nat_numeral)

lemma upt_4: "[0..<4] = [0, 1, 2, 3]"
  by (simp add: eval_nat_numeral)

lemma apply_1q:
  assumes "t < n" "shape mat = [2, 2, B]" "shape state = replicate n 2 @ [B]"
  shows "apply_batch_gate state mat [t] n B =
    Inr (Tensor (shape state)
      (\<lambda>idx. elem mat [idx ! t, 0, last idx] * elem state (idx[t := 0])
            + elem mat [idx ! t, 1, last idx] * elem state (idx[t := 1])))"
  using assms
  by (simp add: apply_batch_gate_def qubit_row_def upt_2)

lemma apply_2q:
  assumes "c < n" "t < n" "shape mat = [4, 4, B]" "shape state = replicate n 2 @ [B]"
  shows "apply_batch_gate state mat [c, t] n B =
    Inr (Tensor (shape state)
      (\<lambda>idx. elem mat [2 * (idx ! c) + idx ! t, 0, last idx] * elem state (idx[c := 0, t := 0])
            + (elem mat [2 * (idx ! c) + idx ! t, 1, last idx] * elem state (idx[c := 0, t := 1])
            + (elem mat [2 * (idx ! c) + idx ! t, 2, last idx] * elem state (idx[c := 1, t := 0])
            + elem mat [2 * (idx ! c) + idx ! t, 3, last idx] * elem state (idx[c := 1, t := 1])))))"
  using assms
  by (simp add: apply_batch_gate_def qubit_row_def upt_4)


lemma controlled_embed:
  assumes "shape M = [2, 2, B]"
  shows "create_controlled_batch_from_operation M B =
    Inr (Tensor [4, 4, B]
      (\<lambda>idx. if 2 \<le> idx ! 0 \<and> 2 \<le> idx ! 1
             then elem M [idx ! 0 - 2, idx ! 1 - 2, idx ! 2]
             else if idx ! 0 = idx ! 1 then 1 else 0))"
  using assms by (simp add: create_controlled_batch_from_operation_def)

lemma in_bounds_qubit:
  assumes "in_bounds (replicate n 2 @ [B]) idx" "q < n"
  shows "idx ! q = 0 \<or> idx ! q = 1"
proof -
  have "idx ! q < (replicate n 2 @ [B]) ! q"
    using assms by (simp add: in_bounds_def)
  then show ?thesis using assms(2) by (auto simp: nth_append)
qed

lemma in_bounds_update:
  assumes "in_bounds sh idx" "q < length sh" "v < sh ! q"
  shows "in_bounds sh (idx[q := v])"
  using assms by (auto simp: in_bounds_def nth_list_update)

lemma in_bounds_qubit_update:
  assumes "in_bounds (replicate n 2 @ [B]) idx" "q < n" "v < 2"
  shows "in_bounds (replicate n 2 @ [B]) (idx[q := v])"
  using assms(2,3) by (intro in_bounds_update[OF assms(1)]) (simp_all add: nth_append)

lemma controlled_apply_value:
  assumes "c < n" "t < n" "c \<noteq> t" "shape M = [2, 2, B]"
    and "shape state = replicate n 2 @ [B]"
  shows "\<exists>cm out. create_controlled_batch_from_operation M B = Inr cm
     \<and> apply_batch_gate state cm [c, t] n B = Inr out \<and> shape out = shape state
     \<and> (\<forall>idx. in_bounds (shape state) idx \<longrightarrow> elem out idx =
           (if idx ! c = 0 then elem state idx
            else elem M [idx ! t, 0, last idx] * elem state (idx[t := 0])
               + elem M [idx ! t, 1, last idx] * elem state (idx[t := 1])))"
proof -
  define cm where "cm = Tensor [4, 4, B]
      (\<lambda>idx. if 2 \<le> idx ! 0 \<and> 2 \<le> idx ! 1
             then elem M [idx ! 0 - 2, idx ! 1 - 2, idx ! 2]
             else if idx ! 0 = idx ! 1 then (1::complex) else 0)"
  define F where "F = (\<lambda>idx.
        elem cm [2 * (idx ! c) + idx ! t, 0, last idx] * elem state (idx[c := 0, t := 0])
      + (elem cm [2 * (idx ! c) + idx ! t, 1, last idx] * elem state (idx[c := 0, t := 1])
      + (elem cm [2 * (idx ! c) + idx ! t, 2, last idx] * elem state (idx[c := 1, t := 0])
      + elem cm [2 * (idx ! c) + idx ! t, 3, last idx] * elem state (idx[c := 1, t := 1]))))"
  have e: "create_controlled_batch_from_operation M B = Inr cm"
    unfolding cm_def by (rule controlled_embed[OF assms(4)])
  have sh: "shape cm = [4, 4, B]" by (simp add: cm_def)
  have ap: "apply_batch_gate state cm [c, t] n B = Inr (Tensor (shape state) F)"
    unfolding F_def by (rule apply_2q[OF assms(1,2) sh assms(5)])
  have v: "F idx = (if idx ! c = 0 then elem state idx
            else elem M [idx ! t, 0, last idx] * elem state (idx[t := 0])
               + elem M [idx ! t, 1, last idx] * elem state (idx[t := 1]))"
    if b: "in_bounds (shape state) idx" for idx
  proof -
    have b': "in_bounds (replicate n 2 @ [B]) idx" using b assms(5) by simp
    have ic: "idx ! c = 0 \<or> idx ! c = 1" by (rule in_bounds_qubit[OF b' assms(1)])
    have it: "idx ! t = 0 \<or> idx ! t = 1" by (rule in_bounds_qubit[OF b' assms(2)])
    have u0: "idx ! c = v \<Longrightarrow> idx[c := v] = idx" for v by auto
    have u1: "idx ! t = v \<Longrightarrow> idx[t := v] = idx" for v by auto
    show ?thesis using ic it
      by (auto simp: F_def cm_def u0 u1)
  qed
  have "shape (Tensor (shape state) F) = shape state" by simp
  moreover have "\<forall>idx. in_bounds (shape state) idx \<longrightarrow> elem (Tensor (shape state) F) idx =
           (if idx ! c = 0 then elem state idx
            else elem M [idx ! t, 0, last idx] * elem state (idx[t := 0])
               + elem M [idx ! t, 1, last idx] * elem state (idx[t := 1]))"
    using v by simp
  ultimately show ?thesis using e ap by blast
qed

lemma rotation_fields:
  assumes "RotationGate_init g qs n = Inr self"
  shows "rotation_gate.qubits self = qs" "rotation_gate.n_qubits self = n"
  using assms by (auto simp: RotationGate_init_def split: option.splits)

lemma controlled_registry:
  assumes "ControlledRotationGate_init g qs n = Inr self"
  shows "OPERATIONS_DICT g = Some (controlled_rotation_gate.paulimat self)"
    and "controlled_rotation_gate.imat self = mat2 1 0 0 1"
    and "controlled_rotation_gate.qubits self = qs"
    and "controlled_rotation_gate.n_qubits self = n"
  using assms
  by (auto simp: ControlledRotationGate_init_def OPERATIONS_DICT_def split: option.splits if_splits)

lemma controlled_matrices_plain:
  assumes "ControlledRotationGate_init g qs n = Inr cr" "RotationGate_init g qs' n' = Inr r"
  shows "ControlledRotationGate_matrices cr thetas = RotationGate_matrices r thetas"
proof -
  have "controlled_rotation_gate.paulimat cr = rotation_gate.paulimat r"
    using controlled_registry(1)[OF assms(1)] registry_gate(1)[OF assms(2)] by simp
  moreover have "controlled_rotation_gate.imat cr = rotation_gate.imat r"
    using controlled_registry(2)[OF assms(1)] registry_gate(2)[OF assms(2)] by simp
  ultimately show ?thesis
    by (simp add: ControlledRotationGate_matrices_def RotationGate_matrices_def)
qed

text \<open>
  C4. With the collaborators as the spec describes them: a controlled rotation gate
  (\<open>CRX\<close>, \<open>CRY\<close>, \<open>CRZ\<close>) on the qubits control \<open>c\<close>, target \<open>t\<close>, applied
  to a state whose control qubit is fixed at 0, returns the state unchanged, for any
  angles; applied to a state whose control qubit is fixed at 1, it returns what the plain
  rotation gate of the same axis on the target qubit alone returns.
\<close>

theorem controlled_rotation_on_fixed_control:
  assumes "g \<in> {''X'', ''Y'', ''Z''}"
    and "ControlledRotationGate_init g [c, t] n = Inr cr"
    and "RotationGate_init g [t] n = Inr r"
    and "c < n" and "t < n" and "c \<noteq> t"
    and "shape state = replicate n 2 @ [B]"
    and "shape thetas = [B] \<or> shape thetas = [1, B]"
  shows "\<exists>out plain. ControlledRotationGate_forward cr state thetas = Inr out
     \<and> RotationGate_forward r state thetas = Inr plain
     \<and> shape out = shape state \<and> shape plain = shape state
     \<and> (control_fixed state c 0 \<longrightarrow>
          (\<forall>idx. in_bounds (shape state) idx \<longrightarrow> elem out idx = elem state idx))
     \<and> (control_fixed state c 1 \<longrightarrow>
          (\<forall>idx. in_bounds (shape state) idx \<longrightarrow> elem out idx = elem plain idx))"
proof -
  obtain M where m: "RotationGate_matrices r thetas = Inr M" and sm: "shape M = [2, 2, B]"
    using pauli_gate_shape[OF assms(1,3,8)] by blast
  have mc: "ControlledRotationGate_matrices cr thetas = Inr M"
    using controlled_matrices_plain[OF assms(2,3)] m by simp
  have sl: "size_last M = Inr B" by (simp add: size_last_def sm)
  from controlled_apply_value[OF assms(4,5,6) sm assms(7)]
  obtain cm out where e: "create_controlled_batch_from_operation M B = Inr cm"
    and ap: "apply_batch_gate state cm [c, t] n B = Inr out"
    and so: "shape out = shape state"
    and vo: "\<And>idx. in_bounds (shape state) idx \<Longrightarrow> elem out idx =
           (if idx ! c = 0 then elem state idx
            else elem M [idx ! t, 0, last idx] * elem state (idx[t := 0])
               + elem M [idx ! t, 1, last idx] * elem state (idx[t := 1]))"
    by blast
  have fc: "ControlledRotationGate_forward cr state thetas = Inr out"
    by (simp add: ControlledRotationGate_forward_def ControlledRotationGate_apply_def then_e_def
        mc sl e ap controlled_registry(3,4)[OF assms(2)])
  define plain where "plain = Tensor (shape state)
      (\<lambda>idx. elem M [idx ! t, 0, last idx] * elem state (idx[t := 0])
            + elem M [idx ! t, 1, last idx] * elem state (idx[t := 1]))"
  have fp: "RotationGate_forward r state thetas = Inr plain"
    by (simp add: RotationGate_forward_def RotationGate_apply_def then_e_def m sl
        rotation_fields[OF assms(3)] apply_1q[OF assms(5) sm assms(7)] plain_def)
  have sp: "shape plain = shape state" by (simp add: plain_def)
  have vp: "elem plain idx = elem M [idx ! t, 0, last idx] * elem state (idx[t := 0])
               + elem M [idx ! t, 1, last idx] * elem state (idx[t := 1])" for idx
    by (simp add: plain_def)
  have upd: "in_bounds (shape state) (idx[t := v]) \<and> (idx[t := v]) ! c = idx ! c"
    if "in_bounds (shape state) idx" "v < 2" for idx v
    using in_bounds_qubit_update[OF _ assms(5) that(2), of B idx] that(1) assms(6,7) by simp
  have z0: "elem out idx = elem state idx"
    if cf: "control_fixed state c 0" and b: "in_bounds (shape state) idx" for idx
  proof (cases "idx ! c = 0")
    case True
    then show ?thesis by (simp add: vo[OF b])
  next
    case False
    have "elem state idx = 0" using cf b False by (simp add: control_fixed_def)
    moreover have "elem state (idx[t := 0]) = 0" "elem state (idx[t := 1]) = 0"
      using cf upd[OF b, of 0] upd[OF b, of 1] False by (simp_all add: control_fixed_def)
    ultimately show ?thesis using False by (simp add: vo[OF b])
  qed
  have z1: "elem out idx = elem plain idx"
    if cf: "control_fixed state c 1" and b: "in_bounds (shape state) idx" for idx
  proof (cases "idx ! c = 0")
    case True
    have "elem state idx = 0" using cf b True by (simp add: control_fixed_def)
    moreover have "elem state (idx[t := 0]) = 0" "elem state (idx[t := 1]) = 0"
      using cf upd[OF b, of 0] upd[OF b, of 1] True by (simp_all add: control_fixed_def)
    ultimately show ?thesis using True by (simp add: vo[OF b] vp)
  next
    case False
    then show ?thesis by (simp add: vo[OF b] vp)
  qed
  show ?thesis
    using fc fp so sp z0 z1 by blast
qed

theorem controlled_rotation_on_fixed_control_witness:
  "\<exists>cr r out0 plain0 out1 plain1. CRX [0, 1] 2 = Inr cr \<and> RX [1] 2 = Inr r
     \<and> control_fixed (Tensor [2, 2, 1] (\<lambda>idx. if idx = [0, 0, 0] then 1 else 0)) 0 0
     \<and> control_fixed (Tensor [2, 2, 1] (\<lambda>idx. if idx = [1, 0, 0] then 1 else 0)) 0 1
     \<and> ControlledRotationGate_forward cr
           (Tensor [2, 2, 1] (\<lambda>idx. if idx = [0, 0, 0] then 1 else 0))
           (Tensor [1] (\<lambda>idx. pi)) = Inr out0
     \<and> RotationGate_forward r
           (Tensor [2, 2, 1] (\<lambda>idx. if idx = [0, 0, 0] then 1 else 0))
           (Tensor [1] (\<lambda>idx. pi)) = Inr plain0
     \<and> elem out0 [0, 0, 0] = 1 \<and> elem out0 [0, 1, 0] = 0
     \<and> ControlledRotationGate_forward cr
           (Tensor [2, 2, 1] (\<lambda>idx. if idx = [1, 0, 0] then 1 else 0))
           (Tensor [1] (\<lambda>idx. pi)) = Inr out1
     \<and> RotationGate_forward r
           (Tensor [2, 2, 1] (\<lambda>idx. if idx = [1, 0, 0] then 1 else 0))
           (Tensor [1] (\<lambda>idx. pi)) = Inr plain1
     \<and> elem out1 [1, 1, 0] = elem plain1 [1, 1, 0]"
proof -
  let ?S0 = "Tensor [2, 2, 1] (\<lambda>idx. if idx = [0, 0, 0] then 1 else 0) :: complex tensor"
  let ?S1 = "Tensor [2, 2, 1] (\<lambda>idx. if idx = [1, 0, 0] then 1 else 0) :: complex tensor"
  let ?T = "Tensor [1] (\<lambda>idx. pi) :: real tensor"
  obtain cr where cr: "CRX [0, 1] 2 = Inr cr"
    by (simp add: CRX_def ControlledRotationGate_init_def OPERATIONS_DICT_def)
  obtain r where r: "RX [1] 2 = Inr r"
    by (simp add: RX_def RotationGate_init_def OPERATIONS_DICT_def)
  have g: "''X'' \<in> {''X'', ''Y'', ''Z''}" by simp
  have c0: "control_fixed ?S0 0 0" by (auto simp: control_fixed_def)
  have c1: "control_fixed ?S1 0 1" by (auto simp: control_fixed_def)
  have sh0: "shape ?S0 = replicate 2 2 @ [1]" by (simp add: eval_nat_numeral)
  have sh1: "shape ?S1 = replicate 2 2 @ [1]" by (simp add: eval_nat_numeral)
  have st: "shape ?T = [1] \<or> shape ?T = [1, 1]" by simp
  have b0: "in_bounds (shape ?S0) [0, 0, 0]" "in_bounds (shape ?S0) [0, 1, 0]"
    by (simp_all add: in_bounds_def nth_Cons split: nat.split)
  have b1: "in_bounds (shape ?S1) [1, 1, 0]"
    by (simp add: in_bounds_def nth_Cons split: nat.split)
  from controlled_rotation_on_fixed_control[OF g cr[unfolded CRX_def] r[unfolded RX_def] _ _ _ sh0 st]
  obtain out0 plain0 where f0: "ControlledRotationGate_forward cr ?S0 ?T = Inr out0"
      "RotationGate_forward r ?S0 ?T = Inr plain0"
    and e0: "control_fixed ?S0 0 0 \<longrightarrow>
          (\<forall>idx. in_bounds (shape ?S0) idx \<longrightarrow> elem out0 idx = elem ?S0 idx)"
    by auto
  from controlled_rotation_on_fixed_control[OF g cr[unfolded CRX_def] r[unfolded RX_def] _ _ _ sh1 st]
  obtain out1 plain1 where f1: "ControlledRotationGate_forward cr ?S1 ?T = Inr out1"
      "RotationGate_forward r ?S1 ?T = Inr plain1"
    and e1: "control_fixed ?S1 0 1 \<longrightarrow>
          (\<forall>idx. in_bounds (shape ?S1) idx \<longrightarrow> elem out1 idx = elem plain1 idx)"
    by auto
  have x0: "elem out0 [0, 0, 0] = 1" "elem out0 [0, 1, 0] = 0"
    using e0 c0 b0 by auto
  have x1: "elem out1 [1, 1, 0] = elem plain1 [1, 1, 0]"
    using e1 c1 b1 by blast
  show ?thesis
    by (intro exI conjI, rule cr, rule r, rule c0, rule c1, rule f0(1), rule f0(2), rule x0(1),
        rule x0(2), rule f1(1), rule f1(2), rule x1)
qed

section \<open>The shapes of the matrix batches\<close>

text \<open>
  C6, as claimed, fails: the \<open>matrices\<close> operation of a controlled rotation gate returns
  the plain rotation batch of shape \<open>(2, 2, batch)\<close>, not a \<open>(4, 4, batch)\<close> block
  matrix. Here for \<open>CRX\<close> on the qubits 0, 1 and the one angle 0.
\<close>

theorem controlled_matrices_counterexample:
  "CRX [0, 1] 2 =
     Inr \<lparr>controlled_rotation_gate.qubits = [0, 1], controlled_rotation_gate.n_qubits = 2,
          controlled_rotation_gate.gate = ''X'', controlled_rotation_gate.imat = mat2 1 0 0 1,
          controlled_rotation_gate.paulimat = mat2 0 1 1 0\<rparr>
   \<and> map_sum id shape (ControlledRotationGate_matrices
         \<lparr>controlled_rotation_gate.qubits = [0, 1], controlled_rotation_gate.n_qubits = 2,
          controlled_rotation_gate.gate = ''X'', controlled_rotation_gate.imat = mat2 1 0 0 1,
          controlled_rotation_gate.paulimat = mat2 0 1 1 0\<rparr>
         (Tensor [1] (\<lambda>idx. 0))) = Inr [2, 2, 1]
   \<and> map_sum id shape (ControlledRotationGate_matrices
         \<lparr>controlled_rotation_gate.qubits = [0, 1], controlled_rotation_gate.n_qubits = 2,
          controlled_rotation_gate.gate = ''X'', controlled_rotation_gate.imat = mat2 1 0 0 1,
          controlled_rotation_gate.paulimat = mat2 0 1 1 0\<rparr>
         (Tensor [1] (\<lambda>idx. 0))) \<noteq> Inr [4, 4, 1]"
  by (simp add: CRX_def ControlledRotationGate_init_def OPERATIONS_DICT_def
      ControlledRotationGate_matrices_def rot_matrices_def tensor_defs mat2_def)

text \<open>
  C6, amended. \<open>matrices(params)\<close> returns a batch of shape \<open>(dim, dim, batch)\<close>
  where \<open>dim\<close> is 2 for the rotation gates, for \<open>U\<close> and also for the controlled
  rotation gates \<open>CRX\<close>, \<open>CRY\<close>, \<open>CRZ\<close>, whose \<open>matrices\<close> operation returns the
  plain rotation batch of the same axis (the controlled block matrix is built later, in
  \<open>apply\<close>), and \<open>dim\<close> is 4 for \<open>CPHASE\<close>.
\<close>

theorem matrices_shapes:
  assumes "g \<in> {''X'', ''Y'', ''Z''}" and "RotationGate_init g qs n = Inr r"
    and "ControlledRotationGate_init g qs' n = Inr cr"
    and "U_init qs n = Inr u" and "registered c s"
    and "shape thetas = [B] \<or> shape thetas = [1, B]" and "shape params = [3, B']"
  shows "(\<exists>M. RotationGate_matrices r thetas = Inr M \<and> shape M = [2, 2, B]
            \<and> ControlledRotationGate_matrices cr thetas = Inr M)
       \<and> (\<exists>M. U_matrices u params = Inr M \<and> shape M = [2, 2, B'])
       \<and> (\<exists>mat s' M. CPHASE_matrices c thetas s = Inr (mat, s') \<and> load s' mat = Inr M
              \<and> shape M = [4, 4, B])"
proof (intro conjI)
  obtain M where m: "RotationGate_matrices r thetas = Inr M" "shape M = [2, 2, B]"
    using pauli_gate_shape[OF assms(1,2,6)] by blast
  then show "\<exists>M. RotationGate_matrices r thetas = Inr M \<and> shape M = [2, 2, B]
            \<and> ControlledRotationGate_matrices cr thetas = Inr M"
    using controlled_matrices_plain[OF assms(3,2), of thetas] by simp
  show "\<exists>M. U_matrices u params = Inr M \<and> shape M = [2, 2, B']"
    by (rule U_matrices_shape[OF assms(4,7)])
  from CPHASE_matrices_value[OF assms(5,6)]
  show "\<exists>mat s' M. CPHASE_matrices c thetas s = Inr (mat, s') \<and> load s' mat = Inr M
              \<and> shape M = [4, 4, B]"
    by blast
qed

theorem matrices_shapes_witness:
  "\<exists>r cr u c s M1 M2 mat s' M3. RY [0] 2 = Inr r \<and> CRY [0, 1] 2 = Inr cr
     \<and> U_init [0] 2 = Inr u \<and> CPHASE_init [0, 1] 2 [] = (c, s)
     \<and> RotationGate_matrices r (Tensor [5] (\<lambda>idx. 1)) = Inr M1 \<and> shape M1 = [2, 2, 5]
     \<and> ControlledRotationGate_matrices cr (Tensor [5] (\<lambda>idx. 1)) = Inr M1
     \<and> U_matrices u (Tensor [3, 7] (\<lambda>idx. 1)) = Inr M2 \<and> shape M2 = [2, 2, 7]
     \<and> CPHASE_matrices c (Tensor [5] (\<lambda>idx. 1)) s = Inr (mat, s') \<and> load s' mat = Inr M3
     \<and> shape M3 = [4, 4, 5]"
proof -
  let ?t = "Tensor [5] (\<lambda>idx. 1) :: real tensor"
  let ?p = "Tensor [3, 7] (\<lambda>idx. 1) :: real tensor"
  obtain r where r: "RY [0] 2 = Inr r"
    by (simp add: RY_def RotationGate_init_def OPERATIONS_DICT_def)
  obtain cr where cr: "CRY [0, 1] 2 = Inr cr"
    by (simp add: CRY_def ControlledRotationGate_init_def OPERATIONS_DICT_def)
  obtain u where u: "U_init [0] 2 = Inr u"
    by (simp add: U_init_def tensor_defs mat2_def)
  obtain c s where i: "CPHASE_init [0, 1] 2 [] = (c, s)" by (cases "CPHASE_init [0, 1] 2 []")
  have reg: "registered c s" using CPHASE_init_registered[OF i] by simp
  have g: "''Y'' \<in> {''X'', ''Y'', ''Z''}" by simp
  have sh: "shape ?t = [5] \<or> shape ?t = [1, 5]" by simp
  have sp: "shape ?p = [3, 7]" by simp
  from matrices_shapes[OF g r[unfolded RY_def] cr[unfolded CRY_def] u reg sh sp]
  obtain M1 M2 mat s' M3 where m: "RotationGate_matrices r ?t = Inr M1" "shape M1 = [2, 2, 5]"
      "ControlledRotationGate_matrices cr ?t = Inr M1"
      "U_matrices u ?p = Inr M2" "shape M2 = [2, 2, 7]"
      "CPHASE_matrices c ?t s = Inr (mat, s')" "load s' mat = Inr M3" "shape M3 = [4, 4, 5]"
    by (elim exE conjE) (rule that)
  show ?thesis
    by (intro exI conjI, rule r, rule cr, rule u, rule i, rule m(1), rule m(2), rule m(3),
        rule m(4), rule m(5), rule m(6), rule m(7), rule m(8))
qed

section \<open>Forward is apply after matrices\<close>

text \<open>
  C8. For each gate kind, \<open>forward(state, params)\<close> is \<open>apply(matrices(params), state)\<close>:
  when \<open>matrices\<close> raises, \<open>forward\<close> raises the same error, and otherwise
  \<open>forward\<close> returns what \<open>apply\<close> returns on the matrices (for \<open>CPHASE\<close>, in the store
  that \<open>matrices\<close> leaves).
\<close>

theorem forward_is_apply_of_matrices:
  "RotationGate_forward r state thetas =
     (case RotationGate_matrices r thetas of
        Inl e \<Rightarrow> Inl e | Inr mats \<Rightarrow> RotationGate_apply r mats state)
   \<and> U_forward u state params =
     (case U_matrices u params of
        Inl e \<Rightarrow> Inl e | Inr mats \<Rightarrow> U_apply u mats state)
   \<and> ControlledRotationGate_forward cr state thetas =
     (case ControlledRotationGate_matrices cr thetas of
        Inl e \<Rightarrow> Inl e | Inr mats \<Rightarrow> ControlledRotationGate_apply cr mats state)
   \<and> CPHASE_forward c state thetas s =
     (case CPHASE_matrices c thetas s of
        Inl e \<Rightarrow> Inl e
      | Inr (mats, s1) \<Rightarrow>
          (case CPHASE_apply c mats state s1 of
             Inl e \<Rightarrow> Inl e | Inr new_state \<Rightarrow> Inr (new_state, s1)))"
  by (simp add: RotationGate_forward_def U_forward_def ControlledRotationGate_forward_def
      CPHASE_forward_def then_e_def split: sum.splits prod.splits)

end
